theory Spec2Isabelle
  imports Complex_Main "HOL-Library.Word" "HOL-Library.AList"
begin

unbundle bit_operations_syntax

section \<open>Steamworks plugin: data model\<close>

subsection \<open>Machine integers and identifiers\<close>

type_synonym int32 = "32 word"  \<comment> \<open>a C int, read with sint\<close>
type_synonym uint32 = "32 word"
type_synonym uint64 = "64 word"

text \<open>A \<open>lua_State*\<close>; a null pointer is \<open>None\<close> of \<open>lua_State option\<close>.\<close>
type_synonym lua_State = nat

subsection \<open>Lua values\<close>

text \<open>
  The values the plugin exchanges with the scripting host. A table has an array part
  (indices 1..n, read by \<open>lua_rawgeti\<close>, measured by \<open>lua_objlen\<close>) and named fields
  (read by \<open>lua_getfield\<close>, written by \<open>lua_setfield\<close>). \<open>LFunction\<close> is a function of the
  script, \<open>LCClosure name upvalue\<close> a C function of the plugin pushed with one upvalue.

  A Lua number (\<open>lua_Number\<close>) is a C double: a finite value, modelled by the real number
  it denotes, or one of the values that are not finite: positive infinity (\<open>math.huge\<close>),
  negative infinity, and not-a-number (\<open>0/0\<close>). The values of a C float are among those of
  a double, so a float has the same model.
\<close>

datatype lua_Number = Finite real | PosInf | NegInf | NaN

type_synonym c_float = lua_Number

datatype lua_value =
    LNil
  | LBoolean bool
  | LNumber lua_Number
  | LString string
  | LTable "lua_value list" "(string \<times> lua_value) list"
  | LFunction nat
  | LCClosure string lua_value
  | LUserdata nat

type_synonym lua_fields = "(string \<times> lua_value) list"

definition lua_setfield :: "string \<Rightarrow> lua_value \<Rightarrow> lua_fields \<Rightarrow> lua_fields" where
  "lua_setfield k v t = AList.update k v t"

definition lua_getfield :: "lua_fields \<Rightarrow> string \<Rightarrow> lua_value" where
  "lua_getfield t k = (case map_of t k of None \<Rightarrow> LNil | Some v \<Rightarrow> v)"

subsection \<open>SteamImageInfo (SteamImageInfo.cpp)\<close>

record SteamImageInfo =
  fImageHandle :: int32
  fPixelWidth :: uint32
  fPixelHeight :: uint32

text \<open>The default constructor.\<close>
definition SteamImageInfo_new :: SteamImageInfo where
  "SteamImageInfo_new = \<lparr>fImageHandle = 0, fPixelWidth = 0, fPixelHeight = 0\<rparr>"

definition IsValid :: "SteamImageInfo \<Rightarrow> bool" where
  "IsValid i =
     (if fImageHandle i \<noteq> 0 \<and> fImageHandle i \<noteq> - 1
      then (if 0 < fPixelWidth i \<and> 0 < fPixelHeight i then True else False)
      else False)"

definition IsNotValid :: "SteamImageInfo \<Rightarrow> bool" where
  "IsNotValid i = (\<not> IsValid i)"

subsection \<open>Decimal text of 64-bit identifiers\<close>

text \<open>
  \<open>stringStream << id\<close> with the classic locale writes an unsigned integer in decimal,
  most significant digit first, with no sign, padding or grouping.
\<close>

definition digit_char :: "nat \<Rightarrow> char" where
  "digit_char d = char_of (48 + d)"

fun dec_digits :: "nat \<Rightarrow> string" where
  "dec_digits n = (if n < 10 then [digit_char n] else dec_digits (n div 10) @ [digit_char (n mod 10)])"

declare dec_digits.simps [simp del]

definition uint64_to_string :: "uint64 \<Rightarrow> string" where
  "uint64_to_string w = dec_digits (unat w)"

subsection \<open>The Steam SDK as seen by the plugin\<close>

text \<open>
  The SDK is an external collaborator. Each accessor (\<open>SteamUtils()\<close>, \<open>SteamFriends()\<close>,
  ...) returns an interface pointer or null; a null pointer is \<open>None\<close>. An interface is
  the record of the answers its member functions give; a member function with an out
  parameter and a boolean result answers \<open>None\<close> when the result is false. A
  \<open>const char*\<close> result is a \<open>string option\<close>, \<open>None\<close> being the null pointer.
\<close>

record LeaderboardEntry_t =
  m_steamIDUser :: uint64
  m_nGlobalRank :: int32
  m_nScore :: int32

record ISteamUtils =
  BOverlayNeedsPresent :: bool
  GetAppID :: uint32
  GetImageSize :: "int32 \<Rightarrow> (uint32 \<times> uint32) option"
  IsOverlayEnabled :: bool

record ISteamUser =
  GetSteamID :: uint64
  GetPlayerSteamLevel :: int32

record ISteamApps =
  BIsDlcInstalled :: "uint32 \<Rightarrow> bool"
  GetAppOwner :: uint64

record ISteamFriends =
  GetSmallFriendAvatar :: "uint64 \<Rightarrow> int32"
  GetMediumFriendAvatar :: "uint64 \<Rightarrow> int32"
  GetLargeFriendAvatar :: "uint64 \<Rightarrow> int32"
  RequestUserInformation :: "uint64 \<Rightarrow> bool \<Rightarrow> bool"
  GetFriendPersonaName :: "uint64 \<Rightarrow> string option"
  GetPersonaName :: "string option"
  GetPlayerNickname :: "uint64 \<Rightarrow> string option"
  GetFriendSteamLevel :: "uint64 \<Rightarrow> int32"
  GetFriendPersonaState :: "uint64 \<Rightarrow> int"
  GetPersonaState :: int
  GetFriendRelationship :: "uint64 \<Rightarrow> int"

record ISteamUserStats =
  GetAchievementIcon :: "string \<Rightarrow> int32"
  GetUserAchievementAndUnlockTime :: "uint64 \<Rightarrow> string \<Rightarrow> (bool \<times> uint32) option"
  GetAchievementAndUnlockTime :: "string \<Rightarrow> (bool \<times> uint32) option"
  GetAchievementDisplayAttribute :: "string \<Rightarrow> string \<Rightarrow> string option"
  GetUserStatInt :: "uint64 \<Rightarrow> string \<Rightarrow> int32 option"
  GetStatInt :: "string \<Rightarrow> int32 option"
  GetUserStatFloat :: "uint64 \<Rightarrow> string \<Rightarrow> c_float option"
  GetStatFloat :: "string \<Rightarrow> c_float option"
  GetNumberOfCurrentPlayers :: uint64
  FindLeaderboard :: "string \<Rightarrow> uint64"
  DownloadLeaderboardEntries :: "uint64 \<Rightarrow> int \<Rightarrow> int32 \<Rightarrow> int32 \<Rightarrow> uint64"
  UploadLeaderboardScore :: "uint64 \<Rightarrow> int32 \<Rightarrow> uint64"
  RequestUserStats :: "uint64 \<Rightarrow> uint64"
  RequestCurrentStats :: bool
  ResetAllStats :: "bool \<Rightarrow> bool"
  IndicateAchievementProgress :: "string \<Rightarrow> uint32 \<Rightarrow> uint32 \<Rightarrow> bool"
  SetAchievement :: "string \<Rightarrow> bool"
  SetStatInt :: "string \<Rightarrow> int32 \<Rightarrow> bool"
  SetStatFloat :: "string \<Rightarrow> c_float \<Rightarrow> bool"
  UpdateAvgRateStat :: "string \<Rightarrow> c_float \<Rightarrow> lua_Number \<Rightarrow> bool"
  GetNumAchievements :: uint32
  GetAchievementName :: "uint32 \<Rightarrow> string option"
  GetLeaderboardName :: "uint64 \<Rightarrow> string option"
  GetLeaderboardEntryCount :: "uint64 \<Rightarrow> int32"
  GetLeaderboardSortMethod :: "uint64 \<Rightarrow> int"
  GetLeaderboardDisplayType :: "uint64 \<Rightarrow> int"
  GetDownloadedLeaderboardEntry :: "uint64 \<Rightarrow> nat \<Rightarrow> LeaderboardEntry_t option"

record steam_sdk =
  SteamUtils :: "ISteamUtils option"
  SteamUser :: "ISteamUser option"
  SteamApps :: "ISteamApps option"
  SteamFriends :: "ISteamFriends option"
  SteamUserStats :: "ISteamUserStats option"

text \<open>The SDK when the Steam client is not running: every accessor returns null.\<close>
definition sdk_not_running :: steam_sdk where
  "sdk_not_running =
     \<lparr>SteamUtils = None, SteamUser = None, SteamApps = None, SteamFriends = None,
      SteamUserStats = None\<rparr>"

text \<open>Enumeration constants of the SDK headers that the plugin switches on.\<close>

definition k_ELeaderboardSortMethodNone :: int where "k_ELeaderboardSortMethodNone = 0"
definition k_ELeaderboardSortMethodAscending :: int where "k_ELeaderboardSortMethodAscending = 1"
definition k_ELeaderboardSortMethodDescending :: int where "k_ELeaderboardSortMethodDescending = 2"
definition k_ELeaderboardDisplayTypeNone :: int where "k_ELeaderboardDisplayTypeNone = 0"
definition k_ELeaderboardDisplayTypeNumeric :: int where "k_ELeaderboardDisplayTypeNumeric = 1"
definition k_ELeaderboardDisplayTypeTimeSeconds :: int where "k_ELeaderboardDisplayTypeTimeSeconds = 2"
definition k_ELeaderboardDisplayTypeTimeMilliSeconds :: int where
  "k_ELeaderboardDisplayTypeTimeMilliSeconds = 3"
definition k_EResultOK :: int where "k_EResultOK = 1"
definition k_EResultFail :: int where "k_EResultFail = 2"
definition k_EPersonaChangeName :: int32 where "k_EPersonaChangeName = 0x0001"
definition k_EPersonaChangeStatus :: int32 where "k_EPersonaChangeStatus = 0x0002"
definition k_EPersonaChangeComeOnline :: int32 where "k_EPersonaChangeComeOnline = 0x0004"
definition k_EPersonaChangeGoneOffline :: int32 where "k_EPersonaChangeGoneOffline = 0x0008"
definition k_EPersonaChangeAvatar :: int32 where "k_EPersonaChangeAvatar = 0x0040"
definition k_EPersonaChangeRelationshipChanged :: int32 where
  "k_EPersonaChangeRelationshipChanged = 0x0200"
definition k_EPersonaChangeNameFirstSet :: int32 where "k_EPersonaChangeNameFirstSet = 0x0400"
definition k_EPersonaChangeNickname :: int32 where "k_EPersonaChangeNickname = 0x1000"
definition k_EPersonaChangeSteamLevel :: int32 where "k_EPersonaChangeSteamLevel = 0x2000"

text \<open>\<open>SteamImageInfo::FromImageHandle\<close>: the size is asked from the SDK at the time of the call.\<close>

definition FromImageHandle :: "steam_sdk \<Rightarrow> int32 \<Rightarrow> SteamImageInfo" where
  "FromImageHandle sdk imageHandle =
     (case SteamUtils sdk of
        None \<Rightarrow> SteamImageInfo_new
      | Some steamUtilsPointer \<Rightarrow>
          (case GetImageSize steamUtilsPointer imageHandle of
             None \<Rightarrow> SteamImageInfo_new
           | Some (pixelWidth, pixelHeight) \<Rightarrow>
               \<lparr>fImageHandle = imageHandle, fPixelWidth = pixelWidth, fPixelHeight = pixelHeight\<rparr>))"

text \<open>
  \<open>SteamImageInfo::PushToLua\<close>: \<open>None\<close> is the result false (null Lua state, nothing
  pushed); otherwise the value pushed, a table or nil.
\<close>

definition PushToLua :: "'a option \<Rightarrow> SteamImageInfo \<Rightarrow> lua_value option" where
  "PushToLua luaStatePointer i =
     (case luaStatePointer of
        None \<Rightarrow> None
      | Some L \<Rightarrow>
          if IsValid i
          then Some (LTable []
                 (lua_setfield ''pixelHeight'' (LNumber (Finite (real (unat (fPixelHeight i)))))
                   (lua_setfield ''pixelWidth'' (LNumber (Finite (real (unat (fPixelWidth i)))))
                     (lua_setfield ''imageHandle'' (LNumber (Finite (real_of_int (sint (fImageHandle i))))) []))))
          else Some LNil)"

subsection \<open>Dispatch event tasks (DispatchEventTask.h, DispatchEventTask.cpp)\<close>

text \<open>
  The Lua event dispatcher (LuaEventDispatcher.h) is used through two members only: the
  Lua state it belongs to, and \<open>DispatchEventWithoutResult\<close>, whose boolean answer for a
  given event table is a field of the record.
\<close>

record LuaEventDispatcher =
  GetLuaState :: "lua_State option"
  DispatchEventWithoutResult :: "lua_value \<Rightarrow> bool"

text \<open>The member variables of the twelve concrete task classes.\<close>

datatype event_data =
    GameOverlayActivated (fWasActivated: bool)
  | LeaderboardScoresDownloaded (fLeaderboardHandle: uint64) (fEntryCollection: "LeaderboardEntry_t list")
  | LeaderboardFindResult (fIsError: bool) (fLeaderboardHandle: uint64) (fEntryCount: int32)
      (fDisplayType: int) (fSortMethod: int)
  | LeaderboardScoreUpload (fIsError: bool) (fLeaderboardHandle: uint64) (fWasScoreChanged: bool)
      (fCurrentGlobalRank: int32) (fPreviousGlobalRank: int32)
  | MicrotransactionAuthorizationResponse (fWasAuthorized: bool) (fOrderId: uint64)
  | NumberOfCurrentPlayers (fIsError: bool) (fPlayerCount: int32)
  | PersonaStateChanged (fUserIntegerId: uint64) (fFlags: int32) (fHasLargeAvatarChanged: bool)
  | UserAchievementIconFetched (fAchievementName: string) (fIsUnlocked: bool) (fIconHandle: int32)
  | UserAchievementStored (fAchievementName: string) (fIsGroup: bool) (fCurrentProgress: uint32)
      (fMaxProgress: uint32)
  | UserStatsReceived (fUserIntegerId: uint64) (fSteamResultCode: int)
  | UserStatsStored (fUserIntegerId: uint64) (fSteamResultCode: int)
  | UserStatsUnloaded (fUserIntegerId: uint64)

text \<open>
  A task object: the members of the base classes (\<open>BaseDispatchEventTask\<close>,
  \<open>BaseDispatchCallResultEventTask\<close>, \<open>BaseDispatchLeaderboardEventTask\<close>) and the members
  of the concrete class. The two middle members exist in the call-result and leaderboard
  classes only; the other classes never read them.
\<close>

record DispatchEventTask =
  fLuaEventDispatcherPointer :: "LuaEventDispatcher option"
  fHadIOFailure :: bool
  fLeaderboardName :: string
  payload :: event_data

definition HadIOFailure :: "DispatchEventTask \<Rightarrow> bool" where
  "HadIOFailure t = fHadIOFailure t"

definition SetHadIOFailure :: "bool \<Rightarrow> DispatchEventTask \<Rightarrow> DispatchEventTask" where
  "SetHadIOFailure v t = t\<lparr>fHadIOFailure := v\<rparr>"

definition SetLuaEventDispatcher ::
  "LuaEventDispatcher option \<Rightarrow> DispatchEventTask \<Rightarrow> DispatchEventTask" where
  "SetLuaEventDispatcher d t = t\<lparr>fLuaEventDispatcherPointer := d\<rparr>"

definition SetLeaderboardName :: "string option \<Rightarrow> DispatchEventTask \<Rightarrow> DispatchEventTask" where
  "SetLeaderboardName name t =
     (case name of Some n \<Rightarrow> t\<lparr>fLeaderboardName := n\<rparr> | None \<Rightarrow> t\<lparr>fLeaderboardName := []\<rparr>)"

text \<open>The constructors: base members as the base constructors leave them.\<close>

definition task_new :: "event_data \<Rightarrow> DispatchEventTask" where
  "task_new d =
     \<lparr>fLuaEventDispatcherPointer = None, fHadIOFailure = False, fLeaderboardName = [], payload = d\<rparr>"

definition DispatchGameOverlayActivatedEventTask :: DispatchEventTask where
  "DispatchGameOverlayActivatedEventTask = task_new (GameOverlayActivated False)"

definition DispatchLeaderboardScoresDownloadedEventTask :: DispatchEventTask where
  "DispatchLeaderboardScoresDownloadedEventTask = task_new (LeaderboardScoresDownloaded 0 [])"

definition DispatchLeaderboardFindResultEventTask :: DispatchEventTask where
  "DispatchLeaderboardFindResultEventTask =
     task_new (LeaderboardFindResult True 0 0 k_ELeaderboardDisplayTypeNone k_ELeaderboardSortMethodNone)"

definition DispatchLeaderboardScoreUploadEventTask :: DispatchEventTask where
  "DispatchLeaderboardScoreUploadEventTask = task_new (LeaderboardScoreUpload True 0 False 0 0)"

definition DispatchMicrotransactionAuthorizationResponseEventTask :: DispatchEventTask where
  "DispatchMicrotransactionAuthorizationResponseEventTask =
     task_new (MicrotransactionAuthorizationResponse False 0)"

definition DispatchNumberOfCurrentPlayersEventTask :: DispatchEventTask where
  "DispatchNumberOfCurrentPlayersEventTask = task_new (NumberOfCurrentPlayers True 0)"

definition DispatchPersonaStateChangedEventTask :: DispatchEventTask where
  "DispatchPersonaStateChangedEventTask = task_new (PersonaStateChanged 0 0 False)"

definition DispatchUserAchievementIconFetchedEventTask :: DispatchEventTask where
  "DispatchUserAchievementIconFetchedEventTask = task_new (UserAchievementIconFetched [] False 0)"

definition DispatchUserAchievementStoredEventTask :: DispatchEventTask where
  "DispatchUserAchievementStoredEventTask = task_new (UserAchievementStored [] False 0 0)"

definition DispatchUserStatsReceivedEventTask :: DispatchEventTask where
  "DispatchUserStatsReceivedEventTask = task_new (UserStatsReceived 0 k_EResultFail)"

definition DispatchUserStatsStoredEventTask :: DispatchEventTask where
  "DispatchUserStatsStoredEventTask = task_new (UserStatsStored 0 k_EResultFail)"

definition DispatchUserStatsUnloadedEventTask :: DispatchEventTask where
  "DispatchUserStatsUnloadedEventTask = task_new (UserStatsUnloaded 0)"

text \<open>\<open>GetLuaEventName\<close>: the \<open>kLuaEventName\<close> constant of each class.\<close>

fun GetLuaEventName :: "event_data \<Rightarrow> string" where
  "GetLuaEventName (GameOverlayActivated _) = ''overlayStatus''"
| "GetLuaEventName (LeaderboardScoresDownloaded _ _) = ''leaderboardEntries''"
| "GetLuaEventName (LeaderboardFindResult _ _ _ _ _) = ''leaderboardInfo''"
| "GetLuaEventName (LeaderboardScoreUpload _ _ _ _ _) = ''setHighScore''"
| "GetLuaEventName (MicrotransactionAuthorizationResponse _ _) = ''microtransactionAuthorization''"
| "GetLuaEventName (NumberOfCurrentPlayers _ _) = ''activePlayerCount''"
| "GetLuaEventName (PersonaStateChanged _ _ _) = ''userInfoUpdate''"
| "GetLuaEventName (UserAchievementIconFetched _ _ _) = ''achievementImageUpdate''"
| "GetLuaEventName (UserAchievementStored _ _ _ _) = ''achievementInfoUpdate''"
| "GetLuaEventName (UserStatsReceived _ _) = ''userProgressUpdate''"
| "GetLuaEventName (UserStatsStored _ _) = ''userProgressSave''"
| "GetLuaEventName (UserStatsUnloaded _) = ''userProgressUnload''"

text \<open>\<open>CoronaLuaNewEvent\<close> (host API): a new table whose \<open>name\<close> field is the event name.\<close>

definition CoronaLuaNewEvent :: "string \<Rightarrow> lua_fields" where
  "CoronaLuaNewEvent eventName = [(''name'', LString eventName)]"

definition lua_pushinteger :: "int \<Rightarrow> lua_value" where
  "lua_pushinteger n = LNumber (Finite (real_of_int n))"


text \<open>A run of \<open>lua_pushX\<close>/\<open>lua_setfield\<close> pairs on the table under construction, in order.\<close>

definition set_fields :: "(string \<times> lua_value) list \<Rightarrow> lua_fields \<Rightarrow> lua_fields" where
  "set_fields kvs t = fold (\<lambda>(k, v). lua_setfield k v) kvs t"

text \<open>
  \<open>PushLuaEventTableTo\<close> of each class. \<open>None\<close> is the result false (nothing is pushed);
  \<open>Some r\<close> is the result true with the event table \<open>r\<close> on top of the Lua stack.
\<close>

definition entry_table :: "LeaderboardEntry_t \<Rightarrow> lua_value" where
  "entry_table entry =
     LTable []
       (set_fields
          [(''userSteamId'', LString (uint64_to_string (m_steamIDUser entry))),
           (''globalRank'', lua_pushinteger (sint (m_nGlobalRank entry))),
           (''score'', lua_pushinteger (sint (m_nScore entry)))] [])"

definition sort_method_name :: "int \<Rightarrow> string" where
  "sort_method_name m =
     (if m = k_ELeaderboardSortMethodNone then ''none''
      else if m = k_ELeaderboardSortMethodAscending then ''ascending''
      else if m = k_ELeaderboardSortMethodDescending then ''descending''
      else ''unknown'')"

definition display_type_name :: "int \<Rightarrow> string" where
  "display_type_name d =
     (if d = k_ELeaderboardDisplayTypeNone then ''none''
      else if d = k_ELeaderboardDisplayTypeNumeric then ''numeric''
      else if d = k_ELeaderboardDisplayTypeTimeSeconds then ''seconds''
      else if d = k_ELeaderboardDisplayTypeTimeMilliSeconds then ''milliseconds''
      else ''unknown'')"

fun event_fields ::
  "steam_sdk \<Rightarrow> lua_State \<Rightarrow> DispatchEventTask \<Rightarrow> event_data \<Rightarrow> lua_fields option" where
  "event_fields sdk L t (GameOverlayActivated wasActivated) =
     Some (set_fields [(''phase'', LString (if wasActivated then ''shown'' else ''hidden''))]
            (CoronaLuaNewEvent ''overlayStatus''))"
| "event_fields sdk L t (LeaderboardScoresDownloaded handle entries) =
     Some (set_fields
            [(''isError'', LBoolean (HadIOFailure t)),
             (''leaderboardName'', LString (fLeaderboardName t)),
             (''leaderboardHandle'', LString (uint64_to_string handle)),
             (''entries'', LTable (map entry_table entries) [])]
            (CoronaLuaNewEvent ''leaderboardEntries''))"
| "event_fields sdk L t (LeaderboardFindResult isErr handle entryCount displayType sortMethod) =
     (let isError = (isErr \<or> HadIOFailure t) in
      Some (set_fields
             ([(''isError'', LBoolean isError),
               (''leaderboardName'', LString (fLeaderboardName t))]
              @ (if \<not> isError
                 then [(''leaderboardHandle'', LString (uint64_to_string handle)),
                       (''entryCount'', lua_pushinteger (if 0 < sint entryCount then sint entryCount else 0)),
                       (''sortMethod'', LString (sort_method_name sortMethod)),
                       (''displayType'', LString (display_type_name displayType))]
                 else []))
             (CoronaLuaNewEvent ''leaderboardInfo'')))"
| "event_fields sdk L t (LeaderboardScoreUpload isErr handle wasScoreChanged currentRank previousRank) =
     (let isError = (isErr \<or> HadIOFailure t) in
      Some (set_fields
             ([(''isError'', LBoolean isError),
               (''leaderboardHandle'', LString (uint64_to_string handle)),
               (''leaderboardName'', LString (fLeaderboardName t)),
               (''scoreChanged'', LBoolean wasScoreChanged)]
              @ (if wasScoreChanged
                 then (if 0 < sint currentRank
                       then [(''currentGlobalRank'', lua_pushinteger (sint currentRank))] else [])
                    @ (if 0 < sint previousRank
                       then [(''previousGlobalRank'', lua_pushinteger (sint previousRank))] else [])
                 else []))
             (CoronaLuaNewEvent ''setHighScore'')))"
| "event_fields sdk L t (MicrotransactionAuthorizationResponse wasAuthorized orderId) =
     Some (set_fields
            [(''authorized'', LBoolean wasAuthorized),
             (''orderId'', LString (uint64_to_string orderId))]
            (CoronaLuaNewEvent ''microtransactionAuthorization''))"
| "event_fields sdk L t (NumberOfCurrentPlayers isErr playerCount) =
     (let isError = (isErr \<or> HadIOFailure t) in
      Some (set_fields
             ([(''isError'', LBoolean isError)]
              @ (if \<not> isError then [(''count'', lua_pushinteger (sint playerCount))] else []))
             (CoronaLuaNewEvent ''activePlayerCount'')))"
| "event_fields sdk L t (PersonaStateChanged userIntegerId flags hasLargeAvatarChanged) =
     (let hasAvatarChanged = (flags AND k_EPersonaChangeAvatar \<noteq> 0) in
      Some (set_fields
             [(''userSteamId'', LString (uint64_to_string userIntegerId)),
              (''nameChanged'',
                 LBoolean (flags AND (k_EPersonaChangeName OR k_EPersonaChangeNameFirstSet) \<noteq> 0)),
              (''statusChanged'',
                 LBoolean (flags AND (k_EPersonaChangeStatus OR k_EPersonaChangeComeOnline
                                        OR k_EPersonaChangeGoneOffline) \<noteq> 0)),
              (''smallAvatarChanged'', LBoolean hasAvatarChanged),
              (''mediumAvatarChanged'', LBoolean hasAvatarChanged),
              (''largeAvatarChanged'', LBoolean hasLargeAvatarChanged),
              (''relationshipChanged'', LBoolean (flags AND k_EPersonaChangeRelationshipChanged \<noteq> 0)),
              (''facebookInfoChanged'', LBoolean False),
              (''nicknameChanged'', LBoolean (flags AND k_EPersonaChangeNickname \<noteq> 0)),
              (''steamLevelChanged'', LBoolean (flags AND k_EPersonaChangeSteamLevel \<noteq> 0))]
             (CoronaLuaNewEvent ''userInfoUpdate'')))"
| "event_fields sdk L t (UserAchievementIconFetched achievementName isUnlocked imageHandle) =
     (let imageInfo = FromImageHandle sdk imageHandle in
      if IsNotValid imageInfo then None
      else Some (set_fields
             [(''achievementName'', LString achievementName),
              (''imageInfo'',
                 (case PushToLua (Some L) imageInfo of Some v \<Rightarrow> v | None \<Rightarrow> LTable [] [])),
              (''unlocked'', LBoolean isUnlocked)]
             (CoronaLuaNewEvent ''achievementImageUpdate'')))"
| "event_fields sdk L t (UserAchievementStored achievementName isGroup currentProgress maxProgress) =
     Some (set_fields
            ([(''achievementName'', LString achievementName),
              (''isGroup'', LBoolean isGroup)]
             @ (if 0 < maxProgress
                then [(''currentProgress'', lua_pushinteger (uint currentProgress)),
                      (''maxProgress'', lua_pushinteger (uint maxProgress))]
                else []))
            (CoronaLuaNewEvent ''achievementInfoUpdate''))"
| "event_fields sdk L t (UserStatsReceived userIntegerId resultCode) =
     Some (set_fields
            [(''userSteamId'', LString (uint64_to_string userIntegerId)),
             (''isError'', LBoolean (resultCode \<noteq> k_EResultOK)),
             (''resultCode'', lua_pushinteger resultCode)]
            (CoronaLuaNewEvent ''userProgressUpdate''))"
| "event_fields sdk L t (UserStatsStored userIntegerId resultCode) =
     Some (set_fields
            [(''userSteamId'', LString (uint64_to_string userIntegerId)),
             (''isError'', LBoolean (resultCode \<noteq> k_EResultOK)),
             (''resultCode'', lua_pushinteger resultCode)]
            (CoronaLuaNewEvent ''userProgressSave''))"
| "event_fields sdk L t (UserStatsUnloaded userIntegerId) =
     Some (set_fields [(''userSteamId'', LString (uint64_to_string userIntegerId))]
            (CoronaLuaNewEvent ''userProgressUnload''))"

definition PushLuaEventTableTo ::
  "steam_sdk \<Rightarrow> lua_State option \<Rightarrow> DispatchEventTask \<Rightarrow> lua_value option" where
  "PushLuaEventTableTo sdk luaStatePointer t =
     (case luaStatePointer of
        None \<Rightarrow> None
      | Some L \<Rightarrow> map_option (LTable []) (event_fields sdk L t (payload t)))"


subsection \<open>Native events and their acquisition (DispatchEventTask.cpp)\<close>

text \<open>
  The SDK's callback structures, with the members the plugin reads. The four structures
  that carry \<open>m_nGameID\<close> form a type of their own: the handler template for events with a
  game id is instantiated for exactly these.
\<close>

datatype game_id_event =
    UserAchievementIconFetched_t (m_nGameID: uint64) (m_rgchAchievementName: string)
      (m_bAchieved: bool) (m_nIconHandle: int32)
  | UserAchievementStored_t (m_nGameID: uint64) (m_bGroupAchievement: bool)
      (m_rgchAchievementName: string) (m_nCurProgress: uint32) (m_nMaxProgress: uint32)
  | UserStatsReceived_t (m_nGameID: uint64) (m_eResult: int) (m_steamIDUser: uint64)
  | UserStatsStored_t (m_nGameID: uint64) (m_eResult: int)

datatype steam_event =
    AvatarImageLoaded_t (m_steamID: uint64) (m_iImage: int32)
  | GameOverlayActivated_t (m_bActive: "8 word")
  | MicroTxnAuthorizationResponse_t (m_bAuthorized: "8 word") (m_ulOrderID: uint64)
  | PersonaStateChange_t (m_ulSteamID: uint64) (m_nChangeFlags: int32)
  | UserStatsUnloaded_t (m_steamIDUser: uint64)
  | WithGameId game_id_event

text \<open>The structures delivered through call results.\<close>

datatype call_result =
    LeaderboardFindResult_t (m_hSteamLeaderboard: uint64) (m_bLeaderboardFound: "8 word")
  | LeaderboardScoresDownloaded_t (m_hSteamLeaderboard: uint64) (m_hSteamLeaderboardEntries: uint64)
      (m_cEntryCount: int32)
  | LeaderboardScoreUploaded_t (m_bSuccess: "8 word") (m_hSteamLeaderboard: uint64)
      (m_bScoreChanged: "8 word") (m_nGlobalRankNew: int32) (m_nGlobalRankPrevious: int32)
  | NumberOfCurrentPlayers_t (m_bSuccess: "8 word") (m_cPlayers: int32)

text \<open>\<open>new TDispatchEventTask()\<close> for the task class each handler names for its event type.\<close>

fun task_for_event :: "steam_event \<Rightarrow> DispatchEventTask" where
  "task_for_event (AvatarImageLoaded_t _ _) = DispatchPersonaStateChangedEventTask"
| "task_for_event (GameOverlayActivated_t _) = DispatchGameOverlayActivatedEventTask"
| "task_for_event (MicroTxnAuthorizationResponse_t _ _) =
     DispatchMicrotransactionAuthorizationResponseEventTask"
| "task_for_event (PersonaStateChange_t _ _) = DispatchPersonaStateChangedEventTask"
| "task_for_event (UserStatsUnloaded_t _) = DispatchUserStatsUnloadedEventTask"
| "task_for_event (WithGameId (UserAchievementIconFetched_t _ _ _ _)) =
     DispatchUserAchievementIconFetchedEventTask"
| "task_for_event (WithGameId (UserAchievementStored_t _ _ _ _ _)) =
     DispatchUserAchievementStoredEventTask"
| "task_for_event (WithGameId (UserStatsReceived_t _ _ _)) = DispatchUserStatsReceivedEventTask"
| "task_for_event (WithGameId (UserStatsStored_t _ _)) = DispatchUserStatsStoredEventTask"

text \<open>\<open>AcquireEventDataFrom\<close> of the global events: the new members of the task.\<close>

fun AcquireEventDataFrom :: "steam_sdk \<Rightarrow> steam_event \<Rightarrow> event_data" where
  "AcquireEventDataFrom sdk (GameOverlayActivated_t active) = GameOverlayActivated (active \<noteq> 0)"
| "AcquireEventDataFrom sdk (MicroTxnAuthorizationResponse_t authorized orderID) =
     MicrotransactionAuthorizationResponse (authorized \<noteq> 0) orderID"
| "AcquireEventDataFrom sdk (PersonaStateChange_t steamID changeFlags) =
     PersonaStateChanged steamID changeFlags
       (if changeFlags AND k_EPersonaChangeAvatar \<noteq> 0
        then (case SteamFriends sdk of
                None \<Rightarrow> False
              | Some steamFriendsPointer \<Rightarrow> GetSmallFriendAvatar steamFriendsPointer steamID = 0)
        else False)"
| "AcquireEventDataFrom sdk (AvatarImageLoaded_t steamID iImage) =
     (let imageInfo = FromImageHandle sdk iImage in
      if IsValid imageInfo
      then (if 184 \<le> fPixelWidth imageInfo
            then PersonaStateChanged steamID 0 True
            else PersonaStateChanged steamID (0 OR k_EPersonaChangeAvatar) False)
      else PersonaStateChanged steamID 0 False)"
| "AcquireEventDataFrom sdk (UserStatsUnloaded_t user) = UserStatsUnloaded user"
| "AcquireEventDataFrom sdk (WithGameId (UserAchievementIconFetched_t gid name achieved icon)) =
     UserAchievementIconFetched name achieved icon"
| "AcquireEventDataFrom sdk (WithGameId (UserAchievementStored_t gid isGroup name cur mx)) =
     UserAchievementStored name isGroup cur mx"
| "AcquireEventDataFrom sdk (WithGameId (UserStatsReceived_t gid result user)) =
     UserStatsReceived user result"
| "AcquireEventDataFrom sdk (WithGameId (UserStatsStored_t gid result)) =
     UserStatsStored
       (case SteamUser sdk of None \<Rightarrow> 0 | Some steamUserPointer \<Rightarrow> GetSteamID steamUserPointer)
       result"


subsection \<open>The runtime context (RuntimeContext.cpp)\<close>

text \<open>
  Modelled from the spec: the registration record of a one-shot call-result handler
  (RuntimeContext.h and SteamCallResultHandler.h are not among the sources). The spec
  gives it a call-result handle, the task type to instantiate, the listener, and the
  optional queuing callback, which the plugin only ever uses to copy a leaderboard name
  into the task.
\<close>

record call_result_registration =
  reg_SteamCallResultHandle :: uint64
  reg_listener :: lua_value
  reg_task :: DispatchEventTask
  reg_leaderboardName :: "string option"

record RuntimeContext =
  ctx_fLuaEventDispatcherPointer :: "LuaEventDispatcher option"
  fDispatchEventTaskQueue :: "DispatchEventTask option list"
  fLeaderboardNameHandleMap :: "string \<rightharpoonup> uint64"
  fLargeAvatarSubscribedUserIdSet :: "uint64 set"
  fWasRenderRequested :: bool
  fSteamCallResultHandlerPool :: "call_result_registration list"

text \<open>Calls into the SDK that ask it to do something, as opposed to reading its cache.\<close>

datatype steam_request =
    Call_RequestUserInformation uint64 bool
  | Call_GetNumberOfCurrentPlayers
  | Call_FindLeaderboard string
  | Call_DownloadLeaderboardEntries uint64 int int32 int32
  | Call_UploadLeaderboardScore uint64 int32
  | Call_RequestUserStats uint64
  | Call_RequestCurrentStats
  | Call_ResetAllStats bool
  | Call_IndicateAchievementProgress string uint32 uint32
  | Call_SetAchievement string
  | Call_StoreStats
  | Call_SetStatInt string int32
  | Call_SetStatFloat string c_float
  | Call_UpdateAvgRateStat string c_float lua_Number
  | Call_ActivateGameOverlay "string option"
  | Call_ActivateGameOverlayToStore uint32
  | Call_ActivateGameOverlayToUser string uint64
  | Call_ActivateGameOverlayToWebPage "string option"
  | Call_SetOverlayNotificationPosition int

text \<open>
  The state the plugin acts on: the runtime context, and what has left it so far, oldest
  first: the event tables handed to the Lua dispatcher, the values written to
  \<open>display.currentStage.isVisible\<close>, the requests made to the SDK, the listeners added to
  and removed from the context's Lua event dispatcher, and the messages given to the host's
  \<open>CoronaLuaError\<close> and \<open>CoronaLuaWarning\<close> (the format string of each), which log the
  message and return.
\<close>

datatype dispatcher_call =
    AddEventListener string lua_value
  | RemoveEventListener string lua_value

datatype diagnostic = CoronaLuaError string | CoronaLuaWarning string

record world =
  ctx :: RuntimeContext
  dispatched :: "lua_value list"
  isVisibleWrites :: "bool list"
  steam_requests :: "steam_request list"
  dispatcher_calls :: "dispatcher_call list"
  diagnostics :: "diagnostic list"

text \<open>The context as its constructor leaves it, for a non-null Lua state.\<close>

definition RuntimeContext_new :: "LuaEventDispatcher \<Rightarrow> RuntimeContext" where
  "RuntimeContext_new d =
     \<lparr>ctx_fLuaEventDispatcherPointer = Some d, fDispatchEventTaskQueue = [],
      fLeaderboardNameHandleMap = Map.empty, fLargeAvatarSubscribedUserIdSet = {},
      fWasRenderRequested = False, fSteamCallResultHandlerPool = []\<rparr>"

definition GetCachedLeaderboardHandleByName :: "string option \<Rightarrow> world \<Rightarrow> uint64 \<times> world" where
  "GetCachedLeaderboardHandleByName name w =
     (case name of
        Some n \<Rightarrow>
          (case fLeaderboardNameHandleMap (ctx w) n of
             Some h \<Rightarrow> (h, w)
           | None \<Rightarrow> (0, w))
      | None \<Rightarrow> (0, w))"

text \<open>\<open>BaseDispatchEventTask::Execute\<close>.\<close>

definition Execute :: "steam_sdk \<Rightarrow> DispatchEventTask \<Rightarrow> world \<Rightarrow> bool \<times> world" where
  "Execute sdk t w =
     (case fLuaEventDispatcherPointer t of
        None \<Rightarrow> (False, w)
      | Some d \<Rightarrow>
          (case GetLuaState d of
             None \<Rightarrow> (False, w)
           | Some luaStatePointer \<Rightarrow>
               (case PushLuaEventTableTo sdk (Some luaStatePointer) t of
                  None \<Rightarrow> (False, w)
                | Some eventTable \<Rightarrow>
                    (DispatchEventWithoutResult d eventTable,
                     w\<lparr>dispatched := dispatched w @ [eventTable]\<rparr>))))"

text \<open>
  \<open>CGameID\<close> is an SDK type: a 64-bit value; built from an application id it holds the
  id in its low bits with the type and mod fields zero, and \<open>!=\<close> compares the 64 bits.
\<close>

definition CGameID_of_AppId :: "uint32 \<Rightarrow> uint64" where
  "CGameID_of_AppId appId = ucast (appId AND 0xFFFFFF)"

definition push_task :: "DispatchEventTask \<Rightarrow> RuntimeContext \<Rightarrow> RuntimeContext" where
  "push_task t c = c\<lparr>fDispatchEventTaskQueue := fDispatchEventTaskQueue c @ [Some t]\<rparr>"

text \<open>\<open>DispatchPersonaStateChangedEventTask::SetHasLargeAvatarChanged\<close>.\<close>

definition SetHasLargeAvatarChanged :: "bool \<Rightarrow> DispatchEventTask \<Rightarrow> DispatchEventTask" where
  "SetHasLargeAvatarChanged v t =
     (case payload t of
        PersonaStateChanged userIntegerId flags _ \<Rightarrow>
          t\<lparr>payload := PersonaStateChanged userIntegerId flags v\<rparr>
      | _ \<Rightarrow> t)"

text \<open>\<open>RuntimeContext::OnHandleGlobalSteamEvent\<close>; a null event pointer is \<open>None\<close>.\<close>

definition OnHandleGlobalSteamEvent ::
  "steam_sdk \<Rightarrow> steam_event option \<Rightarrow> RuntimeContext \<Rightarrow> RuntimeContext" where
  "OnHandleGlobalSteamEvent sdk eventDataPointer c =
     (case eventDataPointer of
        None \<Rightarrow> c
      | Some ev \<Rightarrow>
          (let taskPointer =
                 (SetLuaEventDispatcher (ctx_fLuaEventDispatcherPointer c) (task_for_event ev))
                   \<lparr>payload := AcquireEventDataFrom sdk ev\<rparr>;
               taskPointer' =
                 (case ev of
                    PersonaStateChange_t steamID changeFlags \<Rightarrow>
                      (case SteamFriends sdk of
                         Some steamFriendsPointer \<Rightarrow>
                           if changeFlags AND k_EPersonaChangeAvatar \<noteq> 0
                              \<and> steamID \<in> fLargeAvatarSubscribedUserIdSet c
                              \<and> IsValid (FromImageHandle sdk (GetLargeFriendAvatar steamFriendsPointer steamID))
                           then SetHasLargeAvatarChanged True taskPointer
                           else taskPointer
                       | None \<Rightarrow> taskPointer)
                  | _ \<Rightarrow> taskPointer)
           in push_task taskPointer' c))"

text \<open>\<open>RuntimeContext::OnHandleGlobalSteamEventWithGameId\<close>.\<close>

definition OnHandleGlobalSteamEventWithGameId ::
  "steam_sdk \<Rightarrow> game_id_event option \<Rightarrow> RuntimeContext \<Rightarrow> RuntimeContext" where
  "OnHandleGlobalSteamEventWithGameId sdk eventDataPointer c =
     (case eventDataPointer of
        None \<Rightarrow> c
      | Some ev \<Rightarrow>
          (case SteamUtils sdk of
             Some steamUtilsPointer \<Rightarrow>
               if CGameID_of_AppId (GetAppID steamUtilsPointer) \<noteq> m_nGameID ev
               then c
               else OnHandleGlobalSteamEvent sdk (Some (WithGameId ev)) c
           | None \<Rightarrow> OnHandleGlobalSteamEvent sdk (Some (WithGameId ev)) c))"

text \<open>
  The nine \<open>OnSteam...\<close> members registered as global callbacks: each forwards its event
  to one of the two templates.
\<close>

fun OnSteamCallback :: "steam_sdk \<Rightarrow> steam_event \<Rightarrow> RuntimeContext \<Rightarrow> RuntimeContext" where
  "OnSteamCallback sdk (WithGameId ev) c = OnHandleGlobalSteamEventWithGameId sdk (Some ev) c"
| "OnSteamCallback sdk ev c = OnHandleGlobalSteamEvent sdk (Some ev) c"


subsection \<open>The per-frame poll step (RuntimeContext::OnCoronaEnterFrame)\<close>

text \<open>
  What the surroundings present on one tick: the SDK's answers, the global callbacks that
  \<open>SteamAPI_RunCallbacks\<close> delivers on this tick, in order, and the value of the Lua global
  \<open>display\<close>.
\<close>

record frame_env =
  sdk :: steam_sdk
  pending_callbacks :: "steam_event list"
  display :: lua_value

text \<open>\<open>SteamAPI_RunCallbacks\<close>: the registered handlers run for each pending callback.\<close>

definition SteamAPI_RunCallbacks :: "frame_env \<Rightarrow> RuntimeContext \<Rightarrow> RuntimeContext" where
  "SteamAPI_RunCallbacks env c = fold (OnSteamCallback (sdk env)) (pending_callbacks env) c"

text \<open>
  The \<open>while (fDispatchEventTaskQueue.size() > 0)\<close> loop: take the front, pop it, and
  execute it when the pointer is not null.
\<close>

function drain_queue :: "steam_sdk \<Rightarrow> world \<Rightarrow> world" where
  "drain_queue s w =
     (case fDispatchEventTaskQueue (ctx w) of
        [] \<Rightarrow> w
      | dispatchEventTaskPointer # rest \<Rightarrow>
          (let w1 = w\<lparr>ctx := (ctx w)\<lparr>fDispatchEventTaskQueue := rest\<rparr>\<rparr>;
               w2 = (case dispatchEventTaskPointer of
                       None \<Rightarrow> w1
                     | Some t \<Rightarrow> snd (Execute s t w1))
           in drain_queue s w2))"
  by pat_completeness auto
termination
  by (relation "measure (\<lambda>(s, w). length (fDispatchEventTaskQueue (ctx w)))")
     (auto simp: Execute_def split: option.splits)

declare drain_queue.simps [simp del]

text \<open>
  The toggle of \<open>display.currentStage.isVisible\<close>. \<open>lua_getfield\<close> on a value that cannot
  be indexed raises a Lua error, which leaves the function at once (\<open>Inl\<close>); otherwise the
  result is the list of values written to the field, in order.
\<close>

datatype lua_error = LuaError

definition toggle_stage_visibility :: "lua_value \<Rightarrow> lua_error + bool list" where
  "toggle_stage_visibility d =
     (case d of
        LNil \<Rightarrow> Inr []
      | LTable _ displayFields \<Rightarrow>
          (case lua_getfield displayFields ''currentStage'' of
             LTable _ stageFields \<Rightarrow>
               (case lua_getfield stageFields ''isVisible'' of
                  LBoolean isVisible \<Rightarrow> Inr [\<not> isVisible, isVisible]
                | _ \<Rightarrow> Inr [])
           | _ \<Rightarrow> Inl LuaError)
      | _ \<Rightarrow> Inl LuaError)"

datatype frame_result = Returned int | Raised lua_error

definition OnCoronaEnterFrame ::
  "frame_env \<Rightarrow> lua_State option \<Rightarrow> world \<Rightarrow> frame_result \<times> world" where
  "OnCoronaEnterFrame env luaStatePointer w =
     (case luaStatePointer of
        None \<Rightarrow> (Returned 0, w)
      | Some L \<Rightarrow>
          (let w1 = w\<lparr>ctx := SteamAPI_RunCallbacks env (ctx w)\<rparr>;
               w2 = drain_queue (sdk env) w1;
               isSteamShowingOverlay =
                 (case SteamUtils (sdk env) of
                    None \<Rightarrow> False
                  | Some steamUtilsPointer \<Rightarrow> BOverlayNeedsPresent steamUtilsPointer)
           in if isSteamShowingOverlay \<or> fWasRenderRequested (ctx w2)
              then (case toggle_stage_visibility (display env) of
                      Inl e \<Rightarrow> (Raised e, w2)
                    | Inr writes \<Rightarrow>
                        (Returned 0,
                         w2\<lparr>isVisibleWrites := isVisibleWrites w2 @ writes,
                            ctx := (ctx w2)\<lparr>fWasRenderRequested := isSteamShowingOverlay\<rparr>\<rparr>))
              else (Returned 0,
                    w2\<lparr>ctx := (ctx w2)\<lparr>fWasRenderRequested := isSteamShowingOverlay\<rparr>\<rparr>)))"


subsection \<open>The Lua C API as the entry points use it\<close>

text \<open>
  An entry point receives the Lua state; its stack holds the arguments of the call,
  argument \<open>i\<close> at index \<open>i\<close>. A null state pointer is \<open>None\<close>. An index above the top
  of the stack holds no value: \<open>lua_type\<close> answers \<open>LUA_TNONE\<close> there.
\<close>

type_synonym lua_stack = "lua_value list"

definition stack_at :: "lua_stack \<Rightarrow> nat \<Rightarrow> lua_value option" where
  "stack_at st i = (if 1 \<le> i \<and> i \<le> length st then Some (st ! (i - 1)) else None)"

datatype lua_type_tag =
    LUA_TNONE | LUA_TNIL | LUA_TBOOLEAN | LUA_TNUMBER | LUA_TSTRING | LUA_TTABLE
  | LUA_TFUNCTION | LUA_TUSERDATA

fun lua_type :: "lua_value option \<Rightarrow> lua_type_tag" where
  "lua_type None = LUA_TNONE"
| "lua_type (Some LNil) = LUA_TNIL"
| "lua_type (Some (LBoolean _)) = LUA_TBOOLEAN"
| "lua_type (Some (LNumber _)) = LUA_TNUMBER"
| "lua_type (Some (LString _)) = LUA_TSTRING"
| "lua_type (Some (LTable _ _)) = LUA_TTABLE"
| "lua_type (Some (LFunction _)) = LUA_TFUNCTION"
| "lua_type (Some (LCClosure _ _)) = LUA_TFUNCTION"
| "lua_type (Some (LUserdata _)) = LUA_TUSERDATA"

definition lua_istable :: "lua_value option \<Rightarrow> bool" where
  "lua_istable v = (lua_type v = LUA_TTABLE)"

definition lua_isfunction :: "lua_value option \<Rightarrow> bool" where
  "lua_isfunction v = (lua_type v = LUA_TFUNCTION)"

text \<open>
  The C string behind a Lua string: the characters before its first NUL. \<open>lua_tostring\<close>
  is only ever called on a value whose type has been checked to be \<open>LUA_TSTRING\<close>.
\<close>

definition c_str :: "string \<Rightarrow> string" where
  "c_str s = takeWhile (\<lambda>c. c \<noteq> CHR 0x00) s"

definition lua_tostring :: "lua_value option \<Rightarrow> string option" where
  "lua_tostring v = (case v of Some (LString s) \<Rightarrow> Some (c_str s) | _ \<Rightarrow> None)"

text \<open>\<open>lua_tonumber\<close>: the number, and 0 for a value that is not one.\<close>

definition lua_tonumber :: "lua_value option \<Rightarrow> lua_Number" where
  "lua_tonumber v = (case v of Some (LNumber x) \<Rightarrow> x | _ \<Rightarrow> Finite 0)"

text \<open>The comparison \<open>x <= 0\<close> of a double with zero: false for not-a-number.\<close>

fun le_zero :: "lua_Number \<Rightarrow> bool" where
  "le_zero (Finite x) = (x \<le> 0)"
| "le_zero NegInf = True"
| "le_zero PosInf = False"
| "le_zero NaN = False"

text \<open>The conversion of a double to an integer type in C: the fraction is discarded.\<close>

definition c_truncate :: "real \<Rightarrow> int" where
  "c_truncate x = (if 0 \<le> x then \<lfloor>x\<rfloor> else \<lceil>x\<rceil>)"

text \<open>Fields and elements of a value that may or may not be a table.\<close>

definition getfield :: "lua_value option \<Rightarrow> string \<Rightarrow> lua_value option" where
  "getfield v k =
     (case v of Some (LTable _ tableFields) \<Rightarrow> Some (lua_getfield tableFields k) | _ \<Rightarrow> None)"

definition lua_objlen :: "lua_value option \<Rightarrow> nat" where
  "lua_objlen v = (case v of Some (LTable elems _) \<Rightarrow> length elems | _ \<Rightarrow> 0)"

definition lua_rawgeti :: "lua_value option \<Rightarrow> nat \<Rightarrow> lua_value" where
  "lua_rawgeti v i =
     (case v of
        Some (LTable elems _) \<Rightarrow> (if 1 \<le> i \<and> i \<le> length elems then elems ! (i - 1) else LNil)
      | _ \<Rightarrow> LNil)"

text \<open>\<open>lua_touserdata\<close>: the pointer held by a userdata value, null for any other value.\<close>

definition lua_touserdata :: "lua_value \<Rightarrow> nat option" where
  "lua_touserdata v = (case v of LUserdata p \<Rightarrow> Some p | _ \<Rightarrow> None)"

text \<open>
  What an entry point gives back to Lua: the values it returns (their number is the C
  function's result); or it does not return normally: a Lua error was raised by an API
  call on the way, or the function went on to read a variable that was never given a
  value, from where on the C++ standard says nothing about what happens.
\<close>

datatype abnormal = LuaRaised lua_error | ReadsIndeterminateValue

type_synonym lua_return = "abnormal + lua_value list"

definition log_error :: "string \<Rightarrow> world \<Rightarrow> world" where
  "log_error msg w = w\<lparr>diagnostics := diagnostics w @ [CoronaLuaError msg]\<rparr>"

definition log_warning :: "string \<Rightarrow> world \<Rightarrow> world" where
  "log_warning msg w = w\<lparr>diagnostics := diagnostics w @ [CoronaLuaWarning msg]\<rparr>"

definition steam_call :: "steam_request \<Rightarrow> world \<Rightarrow> world" where
  "steam_call r w = w\<lparr>steam_requests := steam_requests w @ [r]\<rparr>"

subsection \<open>Reading unsigned integers from text\<close>

text \<open>
  \<open>stringStream << text; stringStream >> value\<close> for an unsigned integer type of the given
  width, in the classic locale: leading white space is skipped, an optional sign and then
  decimal digits are read, and reading stops at the first other character. \<open>None\<close> is
  a stream with the fail bit set: no digit was read, or the digits denote a value that
  the type cannot hold. A minus sign negates the value in the unsigned type.
\<close>

definition is_space :: "char \<Rightarrow> bool" where
  "is_space c = (c \<in> set [CHR '' '', CHR 0x09, CHR 0x0A, CHR 0x0B, CHR 0x0C, CHR 0x0D])"

definition is_digit :: "char \<Rightarrow> bool" where
  "is_digit c = ((48::nat) \<le> of_char c \<and> of_char c \<le> (57::nat))"

definition digit_value :: "char \<Rightarrow> nat" where
  "digit_value c = of_char c - 48"

definition digits_value :: "string \<Rightarrow> nat" where
  "digits_value ds = foldl (\<lambda>acc c. 10 * acc + digit_value c) 0 ds"

definition istream_read_unsigned :: "nat \<Rightarrow> string \<Rightarrow> nat option" where
  "istream_read_unsigned bits s =
     (let s1 = dropWhile is_space s;
          negative = (s1 \<noteq> [] \<and> hd s1 = CHR ''-'');
          s2 = (if s1 \<noteq> [] \<and> (hd s1 = CHR ''-'' \<or> hd s1 = CHR ''+'') then tl s1 else s1);
          ds = takeWhile is_digit s2
      in if ds = [] then None
         else if 2 ^ bits \<le> digits_value ds then None
         else Some (if negative then (2 ^ bits - digits_value ds) mod 2 ^ bits else digits_value ds))"

definition istream_read_uint64 :: "string \<Rightarrow> uint64 option" where
  "istream_read_uint64 s = map_option word_of_nat (istream_read_unsigned 64 s)"

definition istream_read_uint32 :: "string \<Rightarrow> uint32 option" where
  "istream_read_uint32 s = map_option word_of_nat (istream_read_unsigned 32 s)"


subsection \<open>The surroundings of the entry points\<close>

text \<open>
  What the entry points use that is neither the plugin's nor a Steam interface:
  \<^item> \<open>CSteamID::IsValid\<close> of the SDK headers, on the 64-bit value of the id; an id that
    was default-constructed or cleared is 0 and is not valid;
  \<^item> the environment variable \<open>SteamAppId\<close>;
  \<^item> the width of the C type \<open>long\<close>, and what \<open>std::lround\<close> returns for an argument
    that is not finite or whose rounded value does not fit \<open>long\<close> (the C standard leaves
    it unspecified);
  \<^item> what \<open>lua_tointeger\<close> returns for a number that is not finite, and the value of the
    cast \<open>(float)\<close> of a double (for a double that is not a float the choice between
    the neighbouring floats is the implementation's);
  \<^item> the host's \<open>CoronaExternalPushTexture\<close>: the values it pushes for an image;
  \<^item> the globals of the Lua state, and \<open>CoronaLuaDoCall\<close>: the status and the values left
    on the stack by calling a function of the script with given arguments.
\<close>

record platform =
  CSteamID_IsValid :: "uint64 \<Rightarrow> bool"
  getenv_SteamAppId :: "string option"
  long_bits :: nat
  lround_out_of_range :: "lua_Number \<Rightarrow> int"
  tointeger_not_finite :: "lua_Number \<Rightarrow> int"
  double_to_float :: "lua_Number \<Rightarrow> c_float"
  CoronaExternalPushTexture :: "int32 \<Rightarrow> lua_value list"
  lua_getglobal :: "string \<Rightarrow> lua_value"
  CoronaLuaDoCall :: "lua_value \<Rightarrow> lua_value list \<Rightarrow> int \<times> lua_value list"

definition steam_id_valid :: "platform \<Rightarrow> uint64 \<Rightarrow> bool" where
  "steam_id_valid P userSteamId = (userSteamId \<noteq> 0 \<and> CSteamID_IsValid P userSteamId)"

text \<open>\<open>lua_tointeger\<close> on a value checked to be a number.\<close>

definition lua_tointeger :: "platform \<Rightarrow> lua_value option \<Rightarrow> int" where
  "lua_tointeger P v =
     (case lua_tonumber v of
        Finite x \<Rightarrow> c_truncate x
      | notFinite \<Rightarrow> tointeger_not_finite P notFinite)"

text \<open>
  The type of an entry point: the surroundings, the SDK, the upvalue the function was
  registered with, the Lua state, and the state of the plugin.
\<close>

type_synonym lua_CFunction =
  "platform \<Rightarrow> steam_sdk \<Rightarrow> lua_value \<Rightarrow> lua_stack option \<Rightarrow> world \<Rightarrow> lua_return \<times> world"

subsection \<open>Value type registries (SteamStatValueType.cpp, SteamUserImageType.cpp)\<close>

datatype SteamStatValueType = kUnknown | kInteger | kFloat | kAverageRate

definition StatValueType_FromCoronaStringId :: "string option \<Rightarrow> SteamStatValueType" where
  "StatValueType_FromCoronaStringId stringId =
     (case stringId of
        None \<Rightarrow> kUnknown
      | Some n \<Rightarrow>
          (if n = ''int'' then kInteger
           else if n = ''float'' then kFloat
           else if n = ''averageRate'' then kAverageRate
           else kUnknown))"

datatype SteamUserImageType = kUnknownImage | kAvatarSmall | kAvatarMedium | kAvatarLarge

definition ImageType_FromCoronaStringId :: "string option \<Rightarrow> SteamUserImageType" where
  "ImageType_FromCoronaStringId stringId =
     (case stringId of
        None \<Rightarrow> kUnknownImage
      | Some n \<Rightarrow>
          (if n = ''smallAvatar'' then kAvatarSmall
           else if n = ''mediumAvatar'' then kAvatarMedium
           else if n = ''largeAvatar'' then kAvatarLarge
           else kUnknownImage))"

subsection \<open>Entry points: achievements\<close>

text \<open>
  The block that reads an optional user id argument, the same in five entry points up to
  the wording of the first message: a string is parsed and must give a valid id; nil or no
  value leaves the id default-constructed; anything else is refused. \<open>Inl\<close> is the early
  return after the error message.
\<close>

definition read_user_steam_id ::
  "platform \<Rightarrow> lua_value option \<Rightarrow> string \<Rightarrow> world \<Rightarrow> (unit + uint64) \<times> world" where
  "read_user_steam_id P v notStringMessage w =
     (if lua_type v = LUA_TSTRING
      then (case lua_tostring v of
              None \<Rightarrow> (Inr 0, w)
            | Some userStringId \<Rightarrow>
                (let userSteamId =
                       (case istream_read_uint64 userStringId of
                          Some integerId \<Rightarrow> integerId
                        | None \<Rightarrow> 0)
                 in if \<not> steam_id_valid P userSteamId
                    then (Inl (), log_error ''Given user ID is invalid: %s'' w)
                    else (Inr userSteamId, w)))
      else if lua_type v \<noteq> LUA_TNONE \<and> lua_type v \<noteq> LUA_TNIL
      then (Inl (), log_error notStringMessage w)
      else (Inr 0, w))"

definition OnGetAchievementImageInfo :: lua_CFunction where
  "OnGetAchievementImageInfo P s upvalue luaStatePointer w =
     (case luaStatePointer of
        None \<Rightarrow> (Inr [], w)
      | Some st \<Rightarrow>
          (case (if lua_type (stack_at st 1) = LUA_TSTRING then lua_tostring (stack_at st 1) else None) of
             None \<Rightarrow>
               (Inr [LNil], log_error ''1st argument must be set to the achievement unique name.'' w)
           | Some achievementName \<Rightarrow>
               (case SteamUserStats s of
                  None \<Rightarrow> (Inr [LNil], w)
                | Some steamUserStatsPointer \<Rightarrow>
                    (let imageHandle = GetAchievementIcon steamUserStatsPointer achievementName;
                         imageInfo = FromImageHandle s imageHandle
                     in case PushToLua luaStatePointer imageInfo of
                          Some v \<Rightarrow> (Inr [v], w)
                        | None \<Rightarrow> (Inr [LNil], w)))))"

definition attribute_or_unknown :: "string option \<Rightarrow> string" where
  "attribute_or_unknown stringResult =
     (case stringResult of
        None \<Rightarrow> ''Unknown''
      | Some r \<Rightarrow> if r = [] then ''Unknown'' else r)"

definition OnGetAchievementInfo :: lua_CFunction where
  "OnGetAchievementInfo P s upvalue luaStatePointer w =
     (case luaStatePointer of
        None \<Rightarrow> (Inr [], w)
      | Some st \<Rightarrow>
          (case (if lua_type (stack_at st 1) = LUA_TSTRING then lua_tostring (stack_at st 1) else None) of
             None \<Rightarrow>
               (Inr [LNil], log_error ''1st argument must be set to the achievement unique name.'' w)
           | Some achievementName \<Rightarrow>
               (case read_user_steam_id P (stack_at st 2)
                       ''2nd argument (userSteamId) is not of type string.'' w of
                  (Inl _, w1) \<Rightarrow> (Inr [LNil], w1)
                | (Inr userSteamId, w1) \<Rightarrow>
                    (case SteamUserStats s of
                       None \<Rightarrow> (Inr [LNil], w1)
                     | Some steamUserStatsPointer \<Rightarrow>
                         (case (if steam_id_valid P userSteamId
                                then GetUserAchievementAndUnlockTime steamUserStatsPointer
                                       userSteamId achievementName
                                else GetAchievementAndUnlockTime steamUserStatsPointer achievementName) of
                            None \<Rightarrow> (Inr [LNil], w1)
                          | Some (wasUnlocked, unlockTime) \<Rightarrow>
                              (Inr [LTable []
                                (set_fields
                                  ([(''unlocked'', LBoolean wasUnlocked)]
                                   @ (if wasUnlocked
                                      then [(''unlockTime'', LNumber (Finite (real (unat unlockTime))))] else [])
                                   @ [(''localizedName'',
                                         LString (attribute_or_unknown
                                           (GetAchievementDisplayAttribute steamUserStatsPointer
                                              achievementName ''name''))),
                                      (''localizedDescription'',
                                         LString (attribute_or_unknown
                                           (GetAchievementDisplayAttribute steamUserStatsPointer
                                              achievementName ''desc''))),
                                      (''hidden'',
                                         LBoolean (GetAchievementDisplayAttribute steamUserStatsPointer
                                                     achievementName ''hidden'' = Some ''1''))])
                                  [])], w1))))))"

definition OnGetAchievementNames :: lua_CFunction where
  "OnGetAchievementNames P s upvalue luaStatePointer w =
     (case luaStatePointer of
        None \<Rightarrow> (Inr [], w)
      | Some st \<Rightarrow>
          (case SteamUserStats s of
             None \<Rightarrow> (Inr [LTable [] []], w)
           | Some steamUserStatsPointer \<Rightarrow>
               (Inr [LTable
                  (map (\<lambda>achievementIndex.
                          LString (case GetAchievementName steamUserStatsPointer (word_of_nat achievementIndex) of
                                     Some achievementName \<Rightarrow> achievementName
                                   | None \<Rightarrow> []))
                       [0 ..< unat (GetNumAchievements steamUserStatsPointer)])
                  []], w)))"


subsection \<open>Entry points: users\<close>

text \<open>\<open>RuntimeContext::GetUserImageInfoFor\<close>.\<close>

definition GetUserImageInfoFor ::
  "platform \<Rightarrow> steam_sdk \<Rightarrow> uint64 \<Rightarrow> SteamUserImageType \<Rightarrow> world \<Rightarrow> SteamImageInfo \<times> world" where
  "GetUserImageInfoFor P s userSteamId imageType w =
     (if \<not> steam_id_valid P userSteamId \<or> imageType = kUnknownImage
      then (SteamImageInfo_new, w)
      else (case SteamFriends s of
              None \<Rightarrow> (SteamImageInfo_new, w)
            | Some steamFriendsPointer \<Rightarrow>
                (case (case imageType of
                         kAvatarSmall \<Rightarrow> Some (GetSmallFriendAvatar steamFriendsPointer userSteamId)
                       | kAvatarMedium \<Rightarrow> Some (GetMediumFriendAvatar steamFriendsPointer userSteamId)
                       | kAvatarLarge \<Rightarrow> Some (GetLargeFriendAvatar steamFriendsPointer userSteamId)
                       | kUnknownImage \<Rightarrow> None) of
                   None \<Rightarrow> (SteamImageInfo_new, w)
                 | Some imageHandle \<Rightarrow>
                     (let w1 = (if imageHandle = 0
                                then steam_call (Call_RequestUserInformation userSteamId False) w
                                else w);
                          w2 = (if imageType = kAvatarLarge
                                then w1\<lparr>ctx := (ctx w1)\<lparr>fLargeAvatarSubscribedUserIdSet :=
                                       insert userSteamId (fLargeAvatarSubscribedUserIdSet (ctx w1))\<rparr>\<rparr>
                                else w1)
                      in (FromImageHandle s imageHandle, w2)))))"

definition OnGetUserImageInfo :: lua_CFunction where
  "OnGetUserImageInfo P s upvalue luaStatePointer w =
     (case luaStatePointer of
        None \<Rightarrow> (Inr [], w)
      | Some st \<Rightarrow>
          if lua_type (stack_at st 1) \<noteq> LUA_TSTRING
          then (Inr [LNil], log_error ''1st argument must be set to image type unique name.'' w)
          else
            (let imageType = ImageType_FromCoronaStringId (lua_tostring (stack_at st 1)) in
             if imageType = kUnknownImage
             then (Inr [LNil], log_error ''Given unknown image type name: %s'' w)
             else
               (case read_user_steam_id P (stack_at st 2)
                       ''Argument (userSteamId) is not of type string.'' w of
                  (Inl _, w1) \<Rightarrow> (Inr [LNil], w1)
                | (Inr givenSteamId, w1) \<Rightarrow>
                    (case lua_touserdata upvalue of
                       None \<Rightarrow> (Inr [LBoolean False], w1)
                     | Some contextPointer \<Rightarrow>
                         (case (SteamUser s, SteamFriends s) of
                            (Some steamUserPointer, Some steamFriendsPointer) \<Rightarrow>
                              (let userSteamId =
                                     (if \<not> steam_id_valid P givenSteamId
                                      then GetSteamID steamUserPointer else givenSteamId);
                                   (imageInfo, w2) = GetUserImageInfoFor P s userSteamId imageType w1
                               in case PushToLua luaStatePointer imageInfo of
                                    Some v \<Rightarrow> (Inr [v], w2)
                                  | None \<Rightarrow> (Inr [LNil], w2))
                          | _ \<Rightarrow> (Inr [LNil], w1))))))"

text \<open>
  The names of \<open>EPersonaState\<close> 0..6 (offline, online, busy, away, snooze, looking to
  trade, looking to play) and of \<open>EFriendRelationship\<close> 0..7 (none, blocked, request
  recipient, friend, request initiator, ignored, ignored friend, suggested).
\<close>

definition persona_state_name :: "int \<Rightarrow> string" where
  "persona_state_name stateIntegerId =
     (if stateIntegerId = 0 then ''offline''
      else if stateIntegerId = 1 then ''online''
      else if stateIntegerId = 2 then ''busy''
      else if stateIntegerId = 3 then ''away''
      else if stateIntegerId = 4 then ''snooze''
      else if stateIntegerId = 5 then ''lookingToTrade''
      else if stateIntegerId = 6 then ''lookingToPlay''
      else ''unknown'')"

definition relationship_name :: "int \<Rightarrow> string" where
  "relationship_name relationshipId =
     (if relationshipId = 0 then ''none''
      else if relationshipId = 1 then ''blocked''
      else if relationshipId = 2 then ''requestRecipient''
      else if relationshipId = 3 then ''friend''
      else if relationshipId = 4 then ''requestInitiator''
      else if relationshipId = 5 then ''ignored''
      else if relationshipId = 6 then ''ignoredFriend''
      else if relationshipId = 7 then ''suggested''
      else ''unknown'')"

definition nonempty_or :: "string \<Rightarrow> string option \<Rightarrow> string" where
  "nonempty_or dflt r = (case r of None \<Rightarrow> dflt | Some x \<Rightarrow> if x = [] then dflt else x)"

definition user_info_table ::
  "platform \<Rightarrow> ISteamUser \<Rightarrow> ISteamFriends \<Rightarrow> uint64 \<Rightarrow> lua_value" where
  "user_info_table P steamUserPointer steamFriendsPointer userSteamId =
     (let given = steam_id_valid P userSteamId in
      LTable []
        (set_fields
          ([(''name'',
               LString (nonempty_or ''[unknown]''
                  (if given then GetFriendPersonaName steamFriendsPointer userSteamId
                   else GetPersonaName steamFriendsPointer))),
            (''nickname'',
               LString (nonempty_or []
                  (if given then GetPlayerNickname steamFriendsPointer userSteamId else None))),
            (''steamLevel'',
               lua_pushinteger (sint (if given then GetFriendSteamLevel steamFriendsPointer userSteamId
                                      else GetPlayerSteamLevel steamUserPointer))),
            (''status'',
               LString (persona_state_name
                  (if given then GetFriendPersonaState steamFriendsPointer userSteamId
                   else GetPersonaState steamFriendsPointer)))]
           @ (if given
              then [(''relationship'',
                       LString (relationship_name (GetFriendRelationship steamFriendsPointer userSteamId)))]
              else []))
          []))"

definition OnGetUserInfo :: lua_CFunction where
  "OnGetUserInfo P s upvalue luaStatePointer w =
     (case luaStatePointer of
        None \<Rightarrow> (Inr [], w)
      | Some st \<Rightarrow>
          (case read_user_steam_id P (stack_at st 1)
                  ''Argument (userSteamId) is not of type string.'' w of
             (Inl _, w1) \<Rightarrow> (Inr [LNil], w1)
           | (Inr givenSteamId, w1) \<Rightarrow>
               (case (SteamUser s, SteamFriends s) of
                  (Some steamUserPointer, Some steamFriendsPointer) \<Rightarrow>
                    (let userSteamId =
                           (if steam_id_valid P givenSteamId
                               \<and> givenSteamId = GetSteamID steamUserPointer
                            then 0 else givenSteamId)
                     in if steam_id_valid P userSteamId
                        then (let w2 = steam_call (Call_RequestUserInformation userSteamId True) w1
                              in if RequestUserInformation steamFriendsPointer userSteamId True
                                 then (Inr [LNil], w2)
                                 else (Inr [user_info_table P steamUserPointer steamFriendsPointer
                                              userSteamId], w2))
                        else (Inr [user_info_table P steamUserPointer steamFriendsPointer
                                     userSteamId], w1))
                | _ \<Rightarrow> (Inr [LNil], w1))))"

definition OnGetUserStatValue :: lua_CFunction where
  "OnGetUserStatValue P s upvalue luaStatePointer w =
     (case luaStatePointer of
        None \<Rightarrow> (Inr [], w)
      | Some st \<Rightarrow>
          if \<not> lua_istable (stack_at st 1)
          then (Inr [LNil], log_error ''1st argument must be a table.'' w)
          else
            (let nameField = getfield (stack_at st 1) ''statName'';
                 (statName, w1) =
                   (if lua_type nameField = LUA_TSTRING
                    then (case lua_tostring nameField of
                            None \<Rightarrow> (None, log_error ''The %s field cannot be set to an empty string.'' w)
                          | Some n \<Rightarrow>
                              if n = []
                              then (None, log_error ''The %s field cannot be set to an empty string.'' w)
                              else (Some n, w))
                    else (None, log_error ''Table must contain a %s field of type string.'' w))
             in case statName of
                  None \<Rightarrow> (Inr [LNil], w1)
                | Some statName \<Rightarrow>
                    (let typeField = getfield (stack_at st 1) ''type'';
                         valueType =
                           (if lua_type typeField = LUA_TSTRING
                            then StatValueType_FromCoronaStringId (lua_tostring typeField)
                            else kUnknown)
                     in if valueType = kUnknown
                        then (Inr [LNil],
                              log_error ''Table must contain a %s field set to either int, float, or averageRate.'' w1)
                        else
                          (let idField = getfield (stack_at st 1) ''userSteamId'';
                               userStringId =
                                 (if lua_type idField = LUA_TSTRING then lua_tostring idField else None);
                               w2 = (if lua_type idField \<noteq> LUA_TSTRING \<and> lua_type idField \<noteq> LUA_TNONE
                                        \<and> lua_type idField \<noteq> LUA_TNIL
                                     then log_error ''The %s field is not of type string.'' w1 else w1);
                               userSteamId =
                                 (case userStringId of
                                    None \<Rightarrow> 0
                                  | Some str \<Rightarrow>
                                      (case istream_read_uint64 str of
                                         Some integerId \<Rightarrow> integerId | None \<Rightarrow> 0));
                               w3 = (if userStringId \<noteq> None \<and> \<not> steam_id_valid P userSteamId
                                     then log_error ''Given %s value is invalid: %s'' w2 else w2)
                           in if userStringId \<noteq> None \<and> \<not> steam_id_valid P userSteamId
                              then (Inr [LNil], w3)
                              else
                                (case SteamUserStats s of
                                   None \<Rightarrow> (Inr [LNil], w3)
                                 | Some steamUserStatsPointer \<Rightarrow>
                                     (if valueType = kInteger
                                      then (case (if steam_id_valid P userSteamId
                                                  then GetUserStatInt steamUserStatsPointer userSteamId statName
                                                  else GetStatInt steamUserStatsPointer statName) of
                                              Some intValue \<Rightarrow> (Inr [lua_pushinteger (sint intValue)], w3)
                                            | None \<Rightarrow> (Inr [LNil], w3))
                                      else (case (if steam_id_valid P userSteamId
                                                  then GetUserStatFloat steamUserStatsPointer userSteamId statName
                                                  else GetStatFloat steamUserStatsPointer statName) of
                                              Some floatValue \<Rightarrow> (Inr [LNumber floatValue], w3)
                                            | None \<Rightarrow> (Inr [LNil], w3))))))))"


subsection \<open>Entry points: images (SteamImageWrapper.cpp and the plugin's main file)\<close>

text \<open>
  \<open>lua_getfield\<close> on a stack value: the field of a table; on a value that cannot be
  indexed a Lua error is raised. An object of the host that is indexed through a
  metatable, such as a texture, is a table in this model.
\<close>

definition lua_index :: "lua_value \<Rightarrow> string \<Rightarrow> lua_error + lua_value" where
  "lua_index v k = (case v of LTable _ tableFields \<Rightarrow> Inr (lua_getfield tableFields k) | _ \<Rightarrow> Inl LuaError)"

text \<open>\<open>SteamImageWrapper::PushTexture\<close>: the values it pushes; their number is its result.\<close>

definition PushTexture :: "platform \<Rightarrow> steam_sdk \<Rightarrow> int32 \<Rightarrow> lua_value list" where
  "PushTexture P s imageHandle =
     (if sint imageHandle \<le> 0 then [LNil]
      else (case SteamUtils s of
              None \<Rightarrow> [LNil]
            | Some utils \<Rightarrow> CoronaExternalPushTexture P imageHandle))"

definition OnNewTexture :: lua_CFunction where
  "OnNewTexture P s upvalue luaStatePointer w =
     (case luaStatePointer of
        None \<Rightarrow> (Inr [], w)
      | Some st \<Rightarrow>
          if lua_type (stack_at st 1) \<noteq> LUA_TNUMBER
          then (Inr [LNil], log_error ''1st argument must be a numeric imageHandle.'' w)
          else
            (let imageHandle = (word_of_int (lua_tointeger P (stack_at st 1)) :: int32);
                 imageInfo = FromImageHandle s imageHandle
             in if IsNotValid imageInfo then (Inr [LNil], w)
                else (Inr (PushTexture P s imageHandle), w)))"

text \<open>The value on top of the stack after \<open>CoronaLuaDoCall\<close> with one result.\<close>

definition call_result_top :: "int \<times> lua_value list \<Rightarrow> lua_value" where
  "call_result_top r = (case snd r of [] \<Rightarrow> LNil | v # _ \<Rightarrow> v)"

text \<open>
  The part of \<open>OnNewImageRect\<close> after the texture has been pushed: the call of
  \<open>display.newImageRect\<close>, then the call of the texture's \<open>releaseSelf\<close>. The result is the
  display object, if one was created.
\<close>

definition new_image_rect_with_texture ::
  "platform \<Rightarrow> lua_value option \<Rightarrow> lua_value \<Rightarrow> lua_Number \<Rightarrow> lua_Number \<Rightarrow> lua_error + lua_value option" where
  "new_image_rect_with_texture P parent texture contentWidth contentHeight =
     (let displayTable = lua_getglobal P ''display'';
          newImageRect = getfield (Some displayTable) ''newImageRect'';
          created =
            (if lua_istable (Some displayTable) \<and> lua_isfunction newImageRect
             then (case (lua_index texture ''filename'', lua_index texture ''baseDir'') of
                     (Inr filename, Inr baseDir) \<Rightarrow>
                       (let displayObject =
                              call_result_top
                                (CoronaLuaDoCall P (case newImageRect of Some f \<Rightarrow> f | None \<Rightarrow> LNil)
                                   ((case parent of Some p \<Rightarrow> [p] | None \<Rightarrow> [])
                                    @ [filename, baseDir, LNumber contentWidth, LNumber contentHeight]))
                        in Inr (if lua_type (Some displayObject) = LUA_TTABLE
                                then Some displayObject else None))
                   | _ \<Rightarrow> Inl LuaError)
             else Inr None)
      in case created of
           Inl e \<Rightarrow> Inl e
         | Inr displayObject \<Rightarrow>
             (case lua_index texture ''releaseSelf'' of
                Inl e \<Rightarrow> Inl e
              | Inr releaseSelf \<Rightarrow> Inr displayObject))"

definition OnNewImageRect :: lua_CFunction where
  "OnNewImageRect P s upvalue luaStatePointer w =
     (case luaStatePointer of
        None \<Rightarrow> (Inr [], w)
      | Some st \<Rightarrow>
          (let firstType = lua_type (stack_at st 1);
               insertField = getfield (stack_at st 1) ''insert'';
               wasGivenParent = (firstType = LUA_TTABLE \<and> lua_type insertField = LUA_TFUNCTION);
               isInvalidArgument =
                 (if firstType = LUA_TTABLE then lua_type insertField \<noteq> LUA_TFUNCTION
                  else firstType \<noteq> LUA_TNUMBER);
               luaArgumentIndex = (if wasGivenParent then 2 else 1)
           in if isInvalidArgument
              then (Inr [LNil],
                    log_error ''1st argument must be an imageHandle or a parent GroupObject.'' w)
              else if lua_type (stack_at st luaArgumentIndex) \<noteq> LUA_TNUMBER
              then (Inr [LNil], log_error ''Argument %d must be a numeric imageHandle.'' w)
              else if lua_type (stack_at st (luaArgumentIndex + 1)) \<noteq> LUA_TNUMBER
              then (Inr [LNil], log_error ''Argument %d must be a numeric content width.'' w)
              else if lua_type (stack_at st (luaArgumentIndex + 2)) \<noteq> LUA_TNUMBER
              then (Inr [LNil], log_error ''Argument %d must be a numeric content height.'' w)
              else
                (let imageHandle = (word_of_int (lua_tointeger P (stack_at st luaArgumentIndex)) :: int32);
                     contentWidth = lua_tonumber (stack_at st (luaArgumentIndex + 1));
                     contentHeight = lua_tonumber (stack_at st (luaArgumentIndex + 2));
                     imageInfo = FromImageHandle s imageHandle
                 in if IsNotValid imageInfo
                    then (Inr [LNil], log_warning ''Given invalid image handle: %d'' w)
                    else
                      (case PushTexture P s imageHandle of
                         [texture] \<Rightarrow>
                           (case new_image_rect_with_texture P
                                   (if wasGivenParent then stack_at st 1 else None)
                                   texture contentWidth contentHeight of
                              Inl e \<Rightarrow> (Inl (LuaRaised e), w)
                            | Inr (Some displayObject) \<Rightarrow> (Inr [displayObject], w)
                            | Inr None \<Rightarrow>
                                (Inr [LNil],
                                 log_warning ''Failed to generate DisplayObject for image handle: %d'' w))
                       | _ \<Rightarrow>
                           (Inr [LNil],
                            log_warning ''Failed to generate texture for image handle: %d'' w)))))"


subsection \<open>Entry points: asynchronous requests\<close>

text \<open>
  \<open>RuntimeContext::EventHandlerSettings\<close>, with the Lua function found at
  \<open>LuaFunctionStackIndex\<close> in place of the index, and the leaderboard name that the queuing
  callback copies into the task in place of the callback.
\<close>

record EventHandlerSettings =
  LuaStatePointer :: "lua_stack option"
  LuaFunction :: lua_value
  SteamCallResultHandle :: uint64
  QueuingEventTaskCallback :: "string option"

definition k_uAPICallInvalid :: uint64 where "k_uAPICallInvalid = 0"

text \<open>
  \<open>CreateQueueingLeaderboardEventTaskCallbackWith\<close>: an empty callback for a null or
  empty name, else the callback that sets this name.
\<close>

definition CreateQueueingLeaderboardEventTaskCallbackWith :: "string option \<Rightarrow> string option" where
  "CreateQueueingLeaderboardEventTaskCallbackWith leaderboardName =
     (case leaderboardName of
        None \<Rightarrow> None
      | Some n \<Rightarrow> if n = [] then None else Some n)"

text \<open>
  Modelled from the spec: \<open>RuntimeContext::AddEventHandlerFor\<close>, declared in RuntimeContext.h,
  which is not among the sources. The spec: given a call-result handle and a listener,
  it creates a one-shot binding (here: an entry of the handler pool) so that a task of the
  given class is created, filled, post-processed and queued when the SDK reports that
  call result; it returns false if the call-result handle is invalid.
\<close>

definition AddEventHandlerFor ::
  "DispatchEventTask \<Rightarrow> EventHandlerSettings \<Rightarrow> world \<Rightarrow> bool \<times> world" where
  "AddEventHandlerFor taskClass settings w =
     (if SteamCallResultHandle settings = k_uAPICallInvalid then (False, w)
      else (True,
            w\<lparr>ctx := (ctx w)\<lparr>fSteamCallResultHandlerPool :=
                 fSteamCallResultHandlerPool (ctx w)
                 @ [\<lparr>reg_SteamCallResultHandle = SteamCallResultHandle settings,
                      reg_listener = LuaFunction settings,
                      reg_task = taskClass,
                      reg_leaderboardName = QueuingEventTaskCallback settings\<rparr>]\<rparr>\<rparr>))"

definition OnRequestActivePlayerCount :: lua_CFunction where
  "OnRequestActivePlayerCount P s upvalue luaStatePointer w =
     (case luaStatePointer of
        None \<Rightarrow> (Inr [], w)
      | Some st \<Rightarrow>
          if \<not> lua_isfunction (stack_at st 1)
          then (Inr [LBoolean False], log_error ''1st argument must be a Lua function.'' w)
          else (case lua_touserdata upvalue of
                  None \<Rightarrow> (Inr [LBoolean False], w)
                | Some contextPointer \<Rightarrow>
                    (case SteamUserStats s of
                       None \<Rightarrow> (Inr [LBoolean False], w)
                     | Some steamUserStatsPointer \<Rightarrow>
                         (let resultHandle = GetNumberOfCurrentPlayers steamUserStatsPointer;
                              w1 = steam_call Call_GetNumberOfCurrentPlayers w;
                              (wasSuccessful, w2) =
                                AddEventHandlerFor DispatchNumberOfCurrentPlayersEventTask
                                  \<lparr>LuaStatePointer = luaStatePointer,
                                   LuaFunction = (case stack_at st 1 of Some f \<Rightarrow> f | None \<Rightarrow> LNil),
                                   SteamCallResultHandle = resultHandle,
                                   QueuingEventTaskCallback = None\<rparr> w1
                          in (Inr [LBoolean wasSuccessful], w2)))))"

text \<open>
  The block that reads the required \<open>leaderboardName\<close> field of the argument table, as
  written in \<open>OnRequestLeaderboardEntries\<close> and \<open>OnRequestLeaderboardInfo\<close>: the name, or null
  after an error message.
\<close>

definition read_leaderboard_name :: "lua_value option \<Rightarrow> world \<Rightarrow> string option \<times> world" where
  "read_leaderboard_name settingsTable w =
     (let nameField = getfield settingsTable ''leaderboardName'' in
      if lua_type nameField = LUA_TSTRING
      then (case lua_tostring nameField of
              None \<Rightarrow> (None, log_error ''The %s field cannot be set to an empty string.'' w)
            | Some n \<Rightarrow>
                if n = [] then (None, log_error ''The %s field cannot be set to an empty string.'' w)
                else (Some n, w))
      else (None, log_error ''Table must contain a %s field of type string.'' w))"

definition OnRequestLeaderboardInfo :: lua_CFunction where
  "OnRequestLeaderboardInfo P s upvalue luaStatePointer w =
     (case luaStatePointer of
        None \<Rightarrow> (Inr [], w)
      | Some st \<Rightarrow>
          (case lua_touserdata upvalue of
             None \<Rightarrow> (Inr [LBoolean False], w)
           | Some contextPointer \<Rightarrow>
               (case SteamUserStats s of
                  None \<Rightarrow> (Inr [LBoolean False], w)
                | Some steamUserStatsPointer \<Rightarrow>
                    if \<not> lua_istable (stack_at st 1)
                    then (Inr [LBoolean False], log_error ''1st argument must be a table.'' w)
                    else
                      (case read_leaderboard_name (stack_at st 1) w of
                         (None, w1) \<Rightarrow> (Inr [LBoolean False], w1)
                       | (Some leaderboardName, w1) \<Rightarrow>
                           (let listener = getfield (stack_at st 1) ''listener'' in
                            if \<not> lua_isfunction listener
                            then (Inr [LBoolean False],
                                  log_error ''Table must contain a listener field of type function.'' w1)
                            else
                              (let resultHandle = FindLeaderboard steamUserStatsPointer leaderboardName;
                                   w2 = steam_call (Call_FindLeaderboard leaderboardName) w1;
                                   (wasSuccessful, w3) =
                                     AddEventHandlerFor DispatchLeaderboardFindResultEventTask
                                       \<lparr>LuaStatePointer = luaStatePointer,
                                        LuaFunction = (case listener of Some f \<Rightarrow> f | None \<Rightarrow> LNil),
                                        SteamCallResultHandle = resultHandle,
                                        QueuingEventTaskCallback =
                                          CreateQueueingLeaderboardEventTaskCallbackWith
                                            (Some leaderboardName)\<rparr> w2
                               in (Inr [LBoolean wasSuccessful], w3)))))))"


text \<open>\<open>::tolower\<close> in the C locale, and the values of \<open>ELeaderboardDataRequest\<close>.\<close>

definition c_tolower :: "char \<Rightarrow> char" where
  "c_tolower c =
     (if (65::nat) \<le> of_char c \<and> of_char c \<le> (90::nat) then char_of (of_char c + (32::nat)) else c)"

definition k_ELeaderboardDataRequestGlobal :: int where "k_ELeaderboardDataRequestGlobal = 0"
definition k_ELeaderboardDataRequestGlobalAroundUser :: int where
  "k_ELeaderboardDataRequestGlobalAroundUser = 1"
definition k_ELeaderboardDataRequestFriends :: int where "k_ELeaderboardDataRequestFriends = 2"

text \<open>The value of \<open>(int)lua_tointeger\<close>: the integer, wrapped to the 32 bits of an int.\<close>

definition c_int :: "int \<Rightarrow> int" where
  "c_int n = sint (word_of_int n :: int32)"

text \<open>
  The optional \<open>playerScope\<close> field: the scope, or \<open>None\<close> for the early return with false
  (after an error message).
\<close>

definition read_player_scope :: "lua_value option \<Rightarrow> world \<Rightarrow> int option \<times> world" where
  "read_player_scope settingsTable w =
     (let scopeField = getfield settingsTable ''playerScope'' in
      if lua_type scopeField \<noteq> LUA_TNONE \<and> lua_type scopeField \<noteq> LUA_TNIL
      then (if lua_type scopeField = LUA_TSTRING
            then (case lua_tostring scopeField of
                    None \<Rightarrow> (None, w)
                  | Some scopeName \<Rightarrow>
                      (let lowercaseScopeName = map c_tolower scopeName in
                       if lowercaseScopeName = ''global''
                       then (Some k_ELeaderboardDataRequestGlobal, w)
                       else if lowercaseScopeName = ''globalarounduser''
                       then (Some k_ELeaderboardDataRequestGlobalAroundUser, w)
                       else if lowercaseScopeName = ''friendsonly''
                       then (Some k_ELeaderboardDataRequestFriends, w)
                       else (None, log_error ''Given unknown playerScope name %s'' w)))
            else (None, log_error ''The playerScope field is not of type string.'' w))
      else (Some k_ELeaderboardDataRequestGlobal, w))"

text \<open>
  The optional \<open>startIndex\<close> and \<open>endIndex\<close> fields, for a scope other than friends: the
  range to request, or \<open>None\<close> for the early return with false.
\<close>

definition read_entry_range ::
  "platform \<Rightarrow> lua_value option \<Rightarrow> int \<Rightarrow> world \<Rightarrow> (int \<times> int) option \<times> world" where
  "read_entry_range P settingsTable playerScope w =
     (let startField = getfield settingsTable ''startIndex'';
          endField = getfield settingsTable ''endIndex'';
          hasRangeStartIndex = (lua_type startField = LUA_TNUMBER);
          hasRangeEndIndex = (lua_type endField = LUA_TNUMBER);
          rangeStartIndex = (if hasRangeStartIndex then c_int (lua_tointeger P startField) else 0);
          rangeEndIndex = (if hasRangeEndIndex then c_int (lua_tointeger P endField) else 0)
      in if \<not> hasRangeStartIndex \<and> lua_type startField \<noteq> LUA_TNIL \<and> lua_type startField \<noteq> LUA_TNONE
         then (None, log_error ''The startIndex field must be of type number.'' w)
         else if \<not> hasRangeEndIndex \<and> lua_type endField \<noteq> LUA_TNIL \<and> lua_type endField \<noteq> LUA_TNONE
         then (None, log_error ''The endIndex field must be of type number.'' w)
         else if hasRangeStartIndex \<noteq> hasRangeEndIndex
         then (None, log_error (if hasRangeStartIndex then ''The endIndex field is missing.''
                                else ''The startIndex field is missing.'') w)
         else if hasRangeStartIndex \<and> hasRangeEndIndex
         then (let rangeStartIndex' =
                     (if k_ELeaderboardDataRequestGlobal = playerScope \<and> rangeStartIndex < 1
                      then 1 else rangeStartIndex);
                   rangeEndIndex' =
                     (if rangeEndIndex < rangeStartIndex' then rangeStartIndex' else rangeEndIndex)
               in (Some (rangeStartIndex', rangeEndIndex'), w))
         else if k_ELeaderboardDataRequestGlobal = playerScope then (Some (1, 25), w)
         else if k_ELeaderboardDataRequestGlobalAroundUser = playerScope then (Some (- 12, 12), w)
         else (Some (0, 0), w))"

text \<open>
  The request that follows a cache miss, the same in \<open>OnRequestLeaderboardEntries\<close> and
  \<open>OnRequestSetHighScore\<close>: a C closure holding the argument table is pushed, the
  leaderboard is looked up, and the closure is bound to the result. The closure runs when
  the result is dispatched to it; what it does then is not part of this model.
\<close>

definition find_leaderboard_then ::
  "string \<Rightarrow> ISteamUserStats \<Rightarrow> lua_stack \<Rightarrow> string \<Rightarrow> world \<Rightarrow> lua_return \<times> world" where
  "find_leaderboard_then closureName steamUserStatsPointer st leaderboardName w =
     (let closure = LCClosure closureName (case stack_at st 1 of Some t \<Rightarrow> t | None \<Rightarrow> LNil);
          resultHandle = FindLeaderboard steamUserStatsPointer leaderboardName;
          w1 = steam_call (Call_FindLeaderboard leaderboardName) w;
          (wasSuccessful, w2) =
            AddEventHandlerFor DispatchLeaderboardFindResultEventTask
              \<lparr>LuaStatePointer = Some (st @ [closure]),
               LuaFunction = closure,
               SteamCallResultHandle = resultHandle,
               QueuingEventTaskCallback =
                 CreateQueueingLeaderboardEventTaskCallbackWith (Some leaderboardName)\<rparr> w1
      in (Inr [LBoolean wasSuccessful], w2))"

definition OnRequestLeaderboardEntries :: lua_CFunction where
  "OnRequestLeaderboardEntries P s upvalue luaStatePointer w =
     (case luaStatePointer of
        None \<Rightarrow> (Inr [], w)
      | Some st \<Rightarrow>
          (case lua_touserdata upvalue of
             None \<Rightarrow> (Inr [LBoolean False], w)
           | Some contextPointer \<Rightarrow>
               (case SteamUserStats s of
                  None \<Rightarrow> (Inr [LBoolean False], w)
                | Some steamUserStatsPointer \<Rightarrow>
                    if \<not> lua_istable (stack_at st 1)
                    then (Inr [LBoolean False], log_error ''1st argument must be a table.'' w)
                    else
                      (case read_leaderboard_name (stack_at st 1) w of
                         (None, w1) \<Rightarrow> (Inr [LBoolean False], w1)
                       | (Some leaderboardName, w1) \<Rightarrow>
                           (case read_player_scope (stack_at st 1) w1 of
                              (None, w2) \<Rightarrow> (Inr [LBoolean False], w2)
                            | (Some playerScope, w2) \<Rightarrow>
                                (case (if playerScope \<noteq> k_ELeaderboardDataRequestFriends
                                       then read_entry_range P (stack_at st 1) playerScope w2
                                       else (Some (0, 0), w2)) of
                                   (None, w3) \<Rightarrow> (Inr [LBoolean False], w3)
                                 | (Some (rangeStartIndex, rangeEndIndex), w3) \<Rightarrow>
                                     (let listener = getfield (stack_at st 1) ''listener'' in
                                      if \<not> lua_isfunction listener
                                      then (Inr [LBoolean False],
                                            log_error ''Table must contain a listener field of type function.'' w3)
                                      else
                                        (let (leaderboardHandle, w4) =
                                               GetCachedLeaderboardHandleByName (Some leaderboardName) w3
                                         in if 0 = leaderboardHandle
                                            then find_leaderboard_then ''requestLeaderboardEntries''
                                                   steamUserStatsPointer st leaderboardName w4
                                            else
                                              (let resultHandle =
                                                     DownloadLeaderboardEntries steamUserStatsPointer
                                                       leaderboardHandle playerScope
                                                       (word_of_int rangeStartIndex) (word_of_int rangeEndIndex);
                                                   w5 = steam_call
                                                          (Call_DownloadLeaderboardEntries leaderboardHandle
                                                             playerScope (word_of_int rangeStartIndex)
                                                             (word_of_int rangeEndIndex)) w4;
                                                   (wasSuccessful, w6) =
                                                     AddEventHandlerFor
                                                       DispatchLeaderboardScoresDownloadedEventTask
                                                       \<lparr>LuaStatePointer = luaStatePointer,
                                                        LuaFunction =
                                                          (case listener of Some f \<Rightarrow> f | None \<Rightarrow> LNil),
                                                        SteamCallResultHandle = resultHandle,
                                                        QueuingEventTaskCallback =
                                                          CreateQueueingLeaderboardEventTaskCallbackWith
                                                            (Some leaderboardName)\<rparr> w5
                                               in (Inr [LBoolean wasSuccessful], w6))))))))))"

definition OnRequestSetHighScore :: lua_CFunction where
  "OnRequestSetHighScore P s upvalue luaStatePointer w =
     (case luaStatePointer of
        None \<Rightarrow> (Inr [], w)
      | Some st \<Rightarrow>
          (case lua_touserdata upvalue of
             None \<Rightarrow> (Inr [LBoolean False], w)
           | Some contextPointer \<Rightarrow>
               (case SteamUserStats s of
                  None \<Rightarrow> (Inr [LBoolean False], w)
                | Some steamUserStatsPointer \<Rightarrow>
                    if \<not> lua_istable (stack_at st 1)
                    then (Inr [LBoolean False], log_error ''1st argument must be a table.'' w)
                    else
                      (let nameField = getfield (stack_at st 1) ''leaderboardName'' in
                       if lua_type nameField \<noteq> LUA_TSTRING
                       then (Inl ReadsIndeterminateValue,
                             log_error ''Table must contain a %s field of type string.'' w)
                       else
                         (case lua_tostring nameField of
                            None \<Rightarrow>
                              (Inl ReadsIndeterminateValue,
                               log_error ''The %s field cannot be set to an empty string.'' w)
                          | Some leaderboardName \<Rightarrow>
                              if leaderboardName = []
                              then (Inl ReadsIndeterminateValue,
                                    log_error ''The %s field cannot be set to an empty string.'' w)
                              else
                                (let valueField = getfield (stack_at st 1) ''value'' in
                                 if lua_type valueField \<noteq> LUA_TNUMBER
                                 then (Inr [LBoolean False],
                                       log_error ''Table must contain a %s field of type number.'' w)
                                 else
                                   (let scoreValue = c_int (lua_tointeger P valueField);
                                        listener = getfield (stack_at st 1) ''listener''
                                    in if \<not> lua_isfunction listener
                                       then (Inr [LBoolean False],
                                             log_error ''Table must contain a listener field of type function.'' w)
                                       else
                                         (let (leaderboardHandle, w1) =
                                                GetCachedLeaderboardHandleByName (Some leaderboardName) w
                                          in if 0 = leaderboardHandle
                                             then find_leaderboard_then ''requestSetHighScore''
                                                    steamUserStatsPointer st leaderboardName w1
                                             else
                                               (let resultHandle =
                                                      UploadLeaderboardScore steamUserStatsPointer
                                                        leaderboardHandle (word_of_int scoreValue);
                                                    w2 = steam_call
                                                           (Call_UploadLeaderboardScore leaderboardHandle
                                                              (word_of_int scoreValue)) w1;
                                                    (wasSuccessful, w3) =
                                                      AddEventHandlerFor
                                                        DispatchLeaderboardScoreUploadEventTask
                                                        \<lparr>LuaStatePointer = luaStatePointer,
                                                         LuaFunction =
                                                           (case listener of Some f \<Rightarrow> f | None \<Rightarrow> LNil),
                                                         SteamCallResultHandle = resultHandle,
                                                         QueuingEventTaskCallback =
                                                           CreateQueueingLeaderboardEventTaskCallbackWith
                                                             (Some leaderboardName)\<rparr> w2
                                                in (Inr [LBoolean wasSuccessful], w3))))))))))"


subsection \<open>Entry points: progress, achievements and overlays\<close>

definition OnRequestUserProgress :: lua_CFunction where
  "OnRequestUserProgress P s upvalue luaStatePointer w =
     (case luaStatePointer of
        None \<Rightarrow> (Inr [], w)
      | Some st \<Rightarrow>
          (case read_user_steam_id P (stack_at st 1)
                  ''Argument (userSteamId) is not of type string.'' w of
             (Inl _, w1) \<Rightarrow> (Inr [LNil], w1)
           | (Inr userSteamId, w1) \<Rightarrow>
               (case SteamUserStats s of
                  None \<Rightarrow> (Inr [LBoolean False], w1)
                | Some steamUserStatsPointer \<Rightarrow>
                    if steam_id_valid P userSteamId
                    then (Inr [LBoolean (RequestUserStats steamUserStatsPointer userSteamId
                                          \<noteq> k_uAPICallInvalid)],
                          steam_call (Call_RequestUserStats userSteamId) w1)
                    else (Inr [LBoolean (RequestCurrentStats steamUserStatsPointer)],
                          steam_call Call_RequestCurrentStats w1))))"

definition OnResetUserProgress :: lua_CFunction where
  "OnResetUserProgress P s upvalue luaStatePointer w =
     (case luaStatePointer of
        None \<Rightarrow> (Inr [], w)
      | Some st \<Rightarrow>
          (case SteamUserStats s of
             None \<Rightarrow> (Inr [LBoolean False], w)
           | Some steamUserStatsPointer \<Rightarrow>
               (Inr [LBoolean (ResetAllStats steamUserStatsPointer True)],
                steam_call (Call_ResetAllStats True) w)))"

definition OnResetUserStats :: lua_CFunction where
  "OnResetUserStats P s upvalue luaStatePointer w =
     (case luaStatePointer of
        None \<Rightarrow> (Inr [], w)
      | Some st \<Rightarrow>
          (case SteamUserStats s of
             None \<Rightarrow> (Inr [LBoolean False], w)
           | Some steamUserStatsPointer \<Rightarrow>
               (Inr [LBoolean (ResetAllStats steamUserStatsPointer False)],
                steam_call (Call_ResetAllStats False) w)))"

text \<open>A progress argument: a negative integer counts as 0; then the cast to \<open>uint32\<close>.\<close>

definition progress_value :: "platform \<Rightarrow> lua_value option \<Rightarrow> uint32" where
  "progress_value P v =
     (let intValue = lua_tointeger P v in word_of_int (if intValue < 0 then 0 else intValue))"

text \<open>Setting an achievement, and storing the stats when that succeeded.\<close>

definition set_and_store :: "bool \<Rightarrow> steam_request \<Rightarrow> world \<Rightarrow> lua_return \<times> world" where
  "set_and_store wasSuccessful request w =
     (Inr [LBoolean wasSuccessful],
      (if wasSuccessful then steam_call Call_StoreStats (steam_call request w)
       else steam_call request w))"

definition OnSetAchievementProgress :: lua_CFunction where
  "OnSetAchievementProgress P s upvalue luaStatePointer w =
     (case luaStatePointer of
        None \<Rightarrow> (Inr [], w)
      | Some st \<Rightarrow>
          (case (if lua_type (stack_at st 1) = LUA_TSTRING then lua_tostring (stack_at st 1) else None) of
             None \<Rightarrow>
               (Inr [LBoolean False],
                log_error ''1st argument must be set to the achievement unique name.'' w)
           | Some achievementName \<Rightarrow>
               if lua_type (stack_at st 2) \<noteq> LUA_TNUMBER
               then (Inr [LBoolean False],
                     log_error (if lua_type (stack_at st 2) = LUA_TNONE
                                then ''2nd argument is missing. Expected current progress value of type number.''
                                else ''2nd argument is not of type number.'') w)
               else if lua_type (stack_at st 3) \<noteq> LUA_TNUMBER
               then (Inr [LBoolean False],
                     log_error (if lua_type (stack_at st 3) = LUA_TNONE
                                then ''3rd argument is missing. Expected max progress value of type number.''
                                else ''3rd argument is not of type number.'') w)
               else
                 (let currentProgressValue = progress_value P (stack_at st 2);
                      maxProgressValue = progress_value P (stack_at st 3)
                  in case SteamUserStats s of
                       None \<Rightarrow> (Inr [LBoolean False], w)
                     | Some steamUserStatsPointer \<Rightarrow>
                         if currentProgressValue < maxProgressValue
                         then set_and_store
                                (IndicateAchievementProgress steamUserStatsPointer achievementName
                                   currentProgressValue maxProgressValue)
                                (Call_IndicateAchievementProgress achievementName
                                   currentProgressValue maxProgressValue) w
                         else set_and_store
                                (SetAchievement steamUserStatsPointer achievementName)
                                (Call_SetAchievement achievementName) w)))"

definition OnSetAchievementUnlocked :: lua_CFunction where
  "OnSetAchievementUnlocked P s upvalue luaStatePointer w =
     (case luaStatePointer of
        None \<Rightarrow> (Inr [], w)
      | Some st \<Rightarrow>
          (case SteamUserStats s of
             None \<Rightarrow> (Inr [LBoolean False], w)
           | Some steamUserStatsPointer \<Rightarrow>
               (case (if lua_type (stack_at st 1) = LUA_TSTRING
                      then lua_tostring (stack_at st 1) else None) of
                  None \<Rightarrow>
                    (Inr [LBoolean False],
                     log_error ''1st argument must be set to the achievement unique name.'' w)
                | Some achievementName \<Rightarrow>
                    set_and_store (SetAchievement steamUserStatsPointer achievementName)
                      (Call_SetAchievement achievementName) w)))"

definition CanShowSteamOverlay :: "steam_sdk \<Rightarrow> bool" where
  "CanShowSteamOverlay s =
     (case SteamUtils s of
        None \<Rightarrow> False
      | Some steamUtilsPointer \<Rightarrow> IsOverlayEnabled steamUtilsPointer)"

text \<open>\<open>CopySteamAppIdTo\<close>: the string it copies the id to, when it does.\<close>

definition CopySteamAppIdTo :: "platform \<Rightarrow> steam_sdk \<Rightarrow> string option" where
  "CopySteamAppIdTo P s =
     (case SteamUtils s of
        Some steamUtilsPointer \<Rightarrow> Some (dec_digits (unat (GetAppID steamUtilsPointer)))
      | None \<Rightarrow>
          (case getenv_SteamAppId P of
             None \<Rightarrow> None
           | Some stringValue \<Rightarrow> if stringValue = [] then None else Some stringValue))"

definition OnShowGameOverlay :: lua_CFunction where
  "OnShowGameOverlay P s upvalue luaStatePointer w =
     (case luaStatePointer of
        None \<Rightarrow> (Inr [], w)
      | Some st \<Rightarrow>
          (case SteamFriends s of
             None \<Rightarrow> (Inr [LBoolean False], w)
           | Some steamFriendsPointer \<Rightarrow>
               if \<not> CanShowSteamOverlay s then (Inr [LBoolean False], w)
               else if lua_type (stack_at st 1) = LUA_TSTRING
               then (Inr [LBoolean True],
                     steam_call (Call_ActivateGameOverlay (lua_tostring (stack_at st 1))) w)
               else if lua_type (stack_at st 1) \<noteq> LUA_TNONE \<and> lua_type (stack_at st 1) \<noteq> LUA_TNIL
               then (Inr [LBoolean False], log_error ''1st argument is not of type string.'' w)
               else (Inr [LBoolean True], steam_call (Call_ActivateGameOverlay None) w)))"

definition OnShowStoreOverlay :: lua_CFunction where
  "OnShowStoreOverlay P s upvalue luaStatePointer w =
     (case luaStatePointer of
        None \<Rightarrow> (Inr [], w)
      | Some st \<Rightarrow>
          (case SteamFriends s of
             None \<Rightarrow> (Inr [LBoolean False], w)
           | Some steamFriendsPointer \<Rightarrow>
               if \<not> CanShowSteamOverlay s then (Inr [LBoolean False], w)
               else if lua_type (stack_at st 1) \<noteq> LUA_TSTRING
                       \<and> lua_type (stack_at st 1) \<noteq> LUA_TNONE \<and> lua_type (stack_at st 1) \<noteq> LUA_TNIL
               then (Inr [LBoolean False], log_error ''Given AppId argument is not of type string.'' w)
               else
                 (let argumentId = (case lua_tostring (stack_at st 1) of Some a \<Rightarrow> a | None \<Rightarrow> []);
                      stringId = (if argumentId = []
                                  then (case CopySteamAppIdTo P s of Some a \<Rightarrow> a | None \<Rightarrow> [])
                                  else argumentId)
                  in if stringId = [] then (Inr [LBoolean False], w)
                     else (case istream_read_uint32 stringId of
                             None \<Rightarrow>
                               (Inr [LBoolean False],
                                log_error ''Given string is an invalid app ID: %s'' w)
                           | Some integerId \<Rightarrow>
                               (Inr [LBoolean True],
                                steam_call (Call_ActivateGameOverlayToStore integerId) w)))))"

definition OnShowUserOverlay :: lua_CFunction where
  "OnShowUserOverlay P s upvalue luaStatePointer w =
     (case luaStatePointer of
        None \<Rightarrow> (Inr [], w)
      | Some st \<Rightarrow>
          (case SteamFriends s of
             None \<Rightarrow> (Inr [LBoolean False], w)
           | Some steamFriendsPointer \<Rightarrow>
               if \<not> CanShowSteamOverlay s then (Inr [LBoolean False], w)
               else if lua_type (stack_at st 1) \<noteq> LUA_TSTRING
               then (Inr [LBoolean False],
                     log_error (if lua_type (stack_at st 1) = LUA_TNONE
                                then ''1st argument must be set to the user steam ID.''
                                else ''1st argument (userSteamId) is not of type string.'') w)
               else
                 (case lua_tostring (stack_at st 1) of
                    None \<Rightarrow> (Inr [LBoolean False], log_error ''User ID cannot be set to an empty string.'' w)
                  | Some userStringId \<Rightarrow>
                      if userStringId = []
                      then (Inr [LBoolean False], log_error ''User ID cannot be set to an empty string.'' w)
                      else
                        (let userSteamId =
                               (case istream_read_uint64 userStringId of
                                  Some integerId \<Rightarrow> integerId | None \<Rightarrow> 0)
                         in if \<not> steam_id_valid P userSteamId
                            then (Inr [LBoolean False], log_error ''Given user ID is invalid: %s'' w)
                            else if lua_type (stack_at st 2) = LUA_TSTRING
                            then (Inr [LBoolean True],
                                  steam_call (Call_ActivateGameOverlayToUser
                                     (case lua_tostring (stack_at st 2) of Some n \<Rightarrow> n | None \<Rightarrow> [])
                                     userSteamId) w)
                            else if lua_type (stack_at st 2) \<noteq> LUA_TNONE
                                    \<and> lua_type (stack_at st 2) \<noteq> LUA_TNIL
                            then (Inr [LBoolean False],
                                  log_error ''2nd argument (overlayName) is not of type string.'' w)
                            else (Inr [LBoolean True],
                                  steam_call (Call_ActivateGameOverlayToUser ''steamid'' userSteamId) w)))))"

definition OnShowWebOverlay :: lua_CFunction where
  "OnShowWebOverlay P s upvalue luaStatePointer w =
     (case luaStatePointer of
        None \<Rightarrow> (Inr [], w)
      | Some st \<Rightarrow>
          (case SteamFriends s of
             None \<Rightarrow> (Inr [LBoolean False], w)
           | Some steamFriendsPointer \<Rightarrow>
               if \<not> CanShowSteamOverlay s then (Inr [LBoolean False], w)
               else if lua_type (stack_at st 1) = LUA_TSTRING
               then (Inr [LBoolean True],
                     steam_call (Call_ActivateGameOverlayToWebPage (lua_tostring (stack_at st 1))) w)
               else if lua_type (stack_at st 1) \<noteq> LUA_TNONE \<and> lua_type (stack_at st 1) \<noteq> LUA_TNIL
               then (Inr [LBoolean False], log_error ''Given URL argument is not of type string.'' w)
               else (Inr [LBoolean True], steam_call (Call_ActivateGameOverlayToWebPage None) w)))"

text \<open>The values of \<open>ENotificationPosition\<close>: top left 0, top right 1, bottom left 2, bottom right 3.\<close>

definition OnSetNotificationPosition :: lua_CFunction where
  "OnSetNotificationPosition P s upvalue luaStatePointer w =
     (case luaStatePointer of
        None \<Rightarrow> (Inr [], w)
      | Some st \<Rightarrow>
          (case SteamUtils s of
             None \<Rightarrow> (Inr [LBoolean False], w)
           | Some steamUtilsPointer \<Rightarrow>
               if lua_type (stack_at st 1) \<noteq> LUA_TSTRING
               then (Inr [LBoolean False], log_error ''Given argument is not of type string.'' w)
               else
                 (let positionName = (case lua_tostring (stack_at st 1) of Some n \<Rightarrow> n | None \<Rightarrow> []) in
                  if positionName = ''topLeft''
                  then (Inr [LBoolean True], steam_call (Call_SetOverlayNotificationPosition 0) w)
                  else if positionName = ''topRight''
                  then (Inr [LBoolean True], steam_call (Call_SetOverlayNotificationPosition 1) w)
                  else if positionName = ''bottomLeft''
                  then (Inr [LBoolean True], steam_call (Call_SetOverlayNotificationPosition 2) w)
                  else if positionName = ''bottomRight''
                  then (Inr [LBoolean True], steam_call (Call_SetOverlayNotificationPosition 3) w)
                  else (Inr [LBoolean False], log_error ''Given unknown position name %s'' w))))"


subsection \<open>Entry points: stats, downloadable content, listeners\<close>

text \<open>
  \<open>std::lround\<close>: the nearest integer, halfway cases away from zero, when the argument is
  finite and \<open>long\<close> can hold that integer; otherwise the result is unspecified: the model
  takes the value the surroundings name, brought into the range of \<open>long\<close>.
\<close>

definition c_round :: "real \<Rightarrow> int" where
  "c_round x = (if 0 \<le> x then \<lfloor>x + 1 / 2\<rfloor> else \<lceil>x - 1 / 2\<rceil>)"

definition LONG_MAX :: "platform \<Rightarrow> int" where
  "LONG_MAX P = 2 ^ (long_bits P - 1) - 1"

definition LONG_MIN :: "platform \<Rightarrow> int" where
  "LONG_MIN P = - (2 ^ (long_bits P - 1))"

definition fits_long :: "platform \<Rightarrow> int \<Rightarrow> bool" where
  "fits_long P n = (LONG_MIN P \<le> n \<and> n \<le> LONG_MAX P)"

definition unspecified_long :: "platform \<Rightarrow> lua_Number \<Rightarrow> int" where
  "unspecified_long P v = (lround_out_of_range P v - LONG_MIN P) mod 2 ^ long_bits P + LONG_MIN P"

definition std_lround :: "platform \<Rightarrow> lua_Number \<Rightarrow> int" where
  "std_lround P v =
     (case v of
        Finite x \<Rightarrow> if fits_long P (c_round x) then c_round x else unspecified_long P v
      | notFinite \<Rightarrow> unspecified_long P v)"

definition INT32_MAX :: int where "INT32_MAX = 2147483647"
definition INT32_MIN :: int where "INT32_MIN = - 2147483648"

text \<open>The clamp of the rounded value into the range of \<open>int32\<close>.\<close>

definition clamp_int32 :: "int \<Rightarrow> int" where
  "clamp_int32 longValue =
     (if longValue > INT32_MAX then INT32_MAX
      else if longValue < INT32_MIN then INT32_MIN
      else longValue)"

text \<open>
  The body of the loop of \<open>OnSetUserStatValues\<close> for one array element, in two steps.
  First the element is read: either it is refused with an error message (the \<open>continue\<close>
  statements), or it names a call that sets a stat, with the arguments as converted:
  \<open>(float)floatValue\<close> for a float or average rate stat, and the rounded, clamped and
  narrowed \<open>(int32)longValue\<close> for an integer stat.
\<close>

definition stat_update :: "platform \<Rightarrow> lua_value \<Rightarrow> string + steam_request" where
  "stat_update P element =
     (if \<not> lua_istable (Some element)
      then Inl ''Array element [%d] is not a table.''
      else
        (let nameField = getfield (Some element) ''statName'';
             statName = (if lua_type nameField = LUA_TSTRING then lua_tostring nameField else None)
         in if statName = None \<or> statName = Some []
            then Inl ''Array element [%d] must contain a %s field set to a non-empty string.''
            else
              (let typeField = getfield (Some element) ''type'';
                   valueType =
                     (if lua_type typeField = LUA_TSTRING
                      then StatValueType_FromCoronaStringId (lua_tostring typeField)
                      else kUnknown)
               in if kUnknown = valueType
                  then Inl ''Array element [%d] must contain a %s field set to either int, float, or averageRate.''
                  else
                    (let valueField = getfield (Some element) ''value'' in
                     if lua_type valueField \<noteq> LUA_TNUMBER
                     then Inl ''Array element [%d] must contain a %s field set to a number.''
                     else
                       (let floatValue = lua_tonumber valueField;
                            sessionField = getfield (Some element) ''sessionTimeLength'';
                            sessionTimeLength = lua_tonumber sessionField;
                            name = (case statName of Some n \<Rightarrow> n | None \<Rightarrow> [])
                        in if valueType = kAverageRate \<and> lua_type sessionField \<noteq> LUA_TNUMBER
                           then Inl ''Array element [%d] must contain a %s field set to a number.''
                           else if valueType = kAverageRate \<and> le_zero sessionTimeLength
                           then Inl ''Array element [%d] field %s must be set to a value greater than zero.''
                           else if valueType = kFloat
                           then Inr (Call_SetStatFloat name (double_to_float P floatValue))
                           else if valueType = kInteger
                           then (let longValue = std_lround P floatValue
                                 in Inr (Call_SetStatInt name (word_of_int (clamp_int32 longValue))))
                           else Inr (Call_UpdateAvgRateStat name (double_to_float P floatValue)
                                       sessionTimeLength))))))"

text \<open>Then the call is made; its result is \<open>wasSuccessful\<close>.\<close>

fun set_stat :: "ISteamUserStats \<Rightarrow> steam_request \<Rightarrow> bool" where
  "set_stat steamUserStatsPointer (Call_SetStatFloat name v) = SetStatFloat steamUserStatsPointer name v"
| "set_stat steamUserStatsPointer (Call_SetStatInt name v) = SetStatInt steamUserStatsPointer name v"
| "set_stat steamUserStatsPointer (Call_UpdateAvgRateStat name v t) =
     UpdateAvgRateStat steamUserStatsPointer name v t"
| "set_stat steamUserStatsPointer _ = False"

definition set_stat_element ::
  "platform \<Rightarrow> ISteamUserStats \<Rightarrow> lua_value \<Rightarrow> world \<Rightarrow> bool \<times> world" where
  "set_stat_element P steamUserStatsPointer element w =
     (case stat_update P element of
        Inl message \<Rightarrow> (False, log_error message w)
      | Inr request \<Rightarrow> (set_stat steamUserStatsPointer request, steam_call request w))"

text \<open>The \<open>for\<close> loop over the array elements, with the flag \<open>hasSetStat\<close>.\<close>

fun set_stat_loop ::
  "platform \<Rightarrow> ISteamUserStats \<Rightarrow> lua_value list \<Rightarrow> bool \<Rightarrow> world \<Rightarrow> bool \<times> world" where
  "set_stat_loop P steamUserStatsPointer [] hasSetStat w = (hasSetStat, w)"
| "set_stat_loop P steamUserStatsPointer (element # rest) hasSetStat w =
     (let (wasSuccessful, w1) = set_stat_element P steamUserStatsPointer element w
      in set_stat_loop P steamUserStatsPointer rest (if wasSuccessful then True else hasSetStat) w1)"

definition OnSetUserStatValues :: lua_CFunction where
  "OnSetUserStatValues P s upvalue luaStatePointer w =
     (case luaStatePointer of
        None \<Rightarrow> (Inr [], w)
      | Some st \<Rightarrow>
          if \<not> lua_istable (stack_at st 1) \<or> lua_objlen (stack_at st 1) < 1
          then (Inr [LBoolean False], log_error ''1st argument must be an array of tables.'' w)
          else (case SteamUserStats s of
                  None \<Rightarrow> (Inr [LBoolean False], w)
                | Some steamUserStatsPointer \<Rightarrow>
                    (let statCount = lua_objlen (stack_at st 1);
                         (hasSetStat, w1) =
                           set_stat_loop P steamUserStatsPointer
                             (map (lua_rawgeti (stack_at st 1)) [1 ..< Suc statCount]) False w
                     in (Inr [LBoolean hasSetStat],
                         (if hasSetStat then steam_call Call_StoreStats w1 else w1)))))"

definition OnIsDlcInstalled :: lua_CFunction where
  "OnIsDlcInstalled P s upvalue luaStatePointer w =
     (case luaStatePointer of
        None \<Rightarrow> (Inr [], w)
      | Some st \<Rightarrow>
          (case SteamApps s of
             None \<Rightarrow> (Inr [LBoolean False], w)
           | Some steamApps \<Rightarrow>
               (let stringId =
                      (if lua_type (stack_at st 1) = LUA_TSTRING
                       then (case lua_tostring (stack_at st 1) of Some a \<Rightarrow> a | None \<Rightarrow> [])
                       else [])
                in if stringId = []
                   then (Inr [LBoolean False], log_error ''Given AppId argument should be a string.'' w)
                   else (case istream_read_uint32 stringId of
                           None \<Rightarrow>
                             (Inr [LBoolean False],
                              log_error ''Given string is an invalid app ID: %s'' w)
                         | Some integerId \<Rightarrow>
                             (Inr [LBoolean (BIsDlcInstalled steamApps integerId)], w)))))"

text \<open>
  \<open>CoronaLuaIsListener\<close> (host API): the value is a function, or a table whose field of the
  event's name is a function.
\<close>

definition CoronaLuaIsListener :: "lua_value option \<Rightarrow> string \<Rightarrow> bool" where
  "CoronaLuaIsListener v eventName =
     (lua_isfunction v \<or> (lua_istable v \<and> lua_isfunction (getfield v eventName)))"

text \<open>The common course of \<open>OnAddEventListener\<close> and \<open>OnRemoveEventListener\<close>.\<close>

definition listener_entry_point ::
  "(string \<Rightarrow> lua_value \<Rightarrow> dispatcher_call) \<Rightarrow> lua_CFunction" where
  "listener_entry_point dispatcherMember P s upvalue luaStatePointer w =
     (case luaStatePointer of
        None \<Rightarrow> (Inr [], w)
      | Some st \<Rightarrow>
          (case (if lua_type (stack_at st 1) = LUA_TSTRING then lua_tostring (stack_at st 1) else None) of
             None \<Rightarrow> (Inr [], log_error ''1st argument must be set to an event name.'' w)
           | Some eventName \<Rightarrow>
               if eventName = []
               then (Inr [], log_error ''1st argument must be set to an event name.'' w)
               else if \<not> CoronaLuaIsListener (stack_at st 2) eventName
               then (Inr [], log_error ''2nd argument must be set to a listener.'' w)
               else (case lua_touserdata upvalue of
                       None \<Rightarrow> (Inr [], w)
                     | Some contextPointer \<Rightarrow>
                         (case ctx_fLuaEventDispatcherPointer (ctx w) of
                            None \<Rightarrow> (Inr [], w)
                          | Some luaEventDispatcherPointer \<Rightarrow>
                              (Inr [],
                               w\<lparr>dispatcher_calls := dispatcher_calls w
                                    @ [dispatcherMember eventName
                                         (case stack_at st 2 of Some l \<Rightarrow> l | None \<Rightarrow> LNil)]\<rparr>)))))"

definition OnAddEventListener :: lua_CFunction where
  "OnAddEventListener = listener_entry_point AddEventListener"

definition OnRemoveEventListener :: lua_CFunction where
  "OnRemoveEventListener = listener_entry_point RemoveEventListener"

text \<open>The text of a 64-bit id as a property value: nil for the id 0.\<close>

definition id_property :: "uint64 \<Rightarrow> lua_value" where
  "id_property integerId = (if integerId \<noteq> 0 then LString (uint64_to_string integerId) else LNil)"

text \<open>\<open>OnAccessingField\<close>, the \<open>__index\<close> function of the plugin table.\<close>

definition OnAccessingField :: lua_CFunction where
  "OnAccessingField P s upvalue luaStatePointer w =
     (case luaStatePointer of
        None \<Rightarrow> (Inr [], w)
      | Some st \<Rightarrow>
          if lua_type (stack_at st 2) \<noteq> LUA_TSTRING then (Inr [], w)
          else (case lua_tostring (stack_at st 2) of
                  None \<Rightarrow> (Inr [], w)
                | Some fieldName \<Rightarrow>
                    if fieldName = ''appId''
                    then (case CopySteamAppIdTo P s of
                            Some stringId \<Rightarrow> (Inr [if stringId \<noteq> [] then LString stringId else LNil], w)
                          | None \<Rightarrow> (Inr [LNil], w))
                    else if fieldName = ''appOwnerSteamId''
                    then (Inr [id_property (case SteamApps s of
                                              Some steamAppsPointer \<Rightarrow> GetAppOwner steamAppsPointer
                                            | None \<Rightarrow> 0)], w)
                    else if fieldName = ''userSteamId''
                    then (Inr [id_property (case SteamUser s of
                                              Some steamUserPointer \<Rightarrow> GetSteamID steamUserPointer
                                            | None \<Rightarrow> 0)], w)
                    else if fieldName = ''isLoggedOn''
                    then (Inr [LBoolean (case SteamUser s of
                                           Some steamUserPointer \<Rightarrow>
                                             steam_id_valid P (GetSteamID steamUserPointer)
                                         | None \<Rightarrow> False)], w)
                    else if fieldName = ''canShowOverlay''
                    then (Inr [LBoolean (CanShowSteamOverlay s)], w)
                    else (Inr [], log_error ''Accessing unknown field: %s'' w)))"

subsection \<open>The function table of the plugin (luaopen_plugin_steamworks)\<close>

definition luaFunctions :: "(string \<times> lua_CFunction) list" where
  "luaFunctions =
     [(''getAchievementImageInfo'', OnGetAchievementImageInfo),
      (''getAchievementInfo'', OnGetAchievementInfo),
      (''getAchievementNames'', OnGetAchievementNames),
      (''getUserImageInfo'', OnGetUserImageInfo),
      (''getUserInfo'', OnGetUserInfo),
      (''getUserStatValue'', OnGetUserStatValue),
      (''newImageRect'', OnNewImageRect),
      (''newTexture'', OnNewTexture),
      (''requestActivePlayerCount'', OnRequestActivePlayerCount),
      (''requestLeaderboardEntries'', OnRequestLeaderboardEntries),
      (''requestLeaderboardInfo'', OnRequestLeaderboardInfo),
      (''requestSetHighScore'', OnRequestSetHighScore),
      (''requestUserProgress'', OnRequestUserProgress),
      (''resetUserProgress'', OnResetUserProgress),
      (''resetUserStats'', OnResetUserStats),
      (''setAchievementProgress'', OnSetAchievementProgress),
      (''setAchievementUnlocked'', OnSetAchievementUnlocked),
      (''setNotificationPosition'', OnSetNotificationPosition),
      (''setUserStatValues'', OnSetUserStatValues),
      (''showGameOverlay'', OnShowGameOverlay),
      (''showStoreOverlay'', OnShowStoreOverlay),
      (''showUserOverlay'', OnShowUserOverlay),
      (''showWebOverlay'', OnShowWebOverlay),
      (''isDlcInstalled'', OnIsDlcInstalled),
      (''addEventListener'', OnAddEventListener),
      (''removeEventListener'', OnRemoveEventListener)]"


subsection \<open>Notions used to state the properties\<close>

text \<open>
  The event table that \<open>Execute\<close> hands to the dispatcher for a task, if any: none for a
  null dispatcher, a null Lua state, or a failed push of the event table.
\<close>

definition delivery :: "steam_sdk \<Rightarrow> DispatchEventTask \<Rightarrow> lua_value option" where
  "delivery s t =
     (case fLuaEventDispatcherPointer t of
        None \<Rightarrow> None
      | Some d \<Rightarrow>
          (case GetLuaState d of
             None \<Rightarrow> None
           | Some L \<Rightarrow> PushLuaEventTableTo s (Some L) t))"

definition queued_delivery :: "steam_sdk \<Rightarrow> DispatchEventTask option \<Rightarrow> lua_value option" where
  "queued_delivery s p = (case p of None \<Rightarrow> None | Some t \<Rightarrow> delivery s t)"

text \<open>Whether the SDK reports on this tick that the overlay needs presenting.\<close>

definition overlay_needs_present :: "frame_env \<Rightarrow> bool" where
  "overlay_needs_present env =
     (case SteamUtils (sdk env) of
        None \<Rightarrow> False
      | Some steamUtilsPointer \<Rightarrow> BOverlayNeedsPresent steamUtilsPointer)"

text \<open>
  The stage the poll step toggles: the value of \<open>display.currentStage.isVisible\<close> when
  the host offers a stage and the field is a boolean, \<open>None\<close> otherwise.
\<close>

definition stage_visibility :: "frame_env \<Rightarrow> bool option" where
  "stage_visibility env =
     (case display env of
        LTable _ displayFields \<Rightarrow>
          (case lua_getfield displayFields ''currentStage'' of
             LTable _ stageFields \<Rightarrow>
               (case lua_getfield stageFields ''isVisible'' of
                  LBoolean isVisible \<Rightarrow> Some isVisible
                | _ \<Rightarrow> None)
           | _ \<Rightarrow> None)
      | _ \<Rightarrow> None)"

text \<open>
  A run of consecutive ticks: for each tick, the values it wrote to
  \<open>display.currentStage.isVisible\<close>, in order. A write to the field is what makes the host
  redraw; a tick that writes nothing does not signal the host.
\<close>

fun tick_writes :: "lua_State \<Rightarrow> frame_env list \<Rightarrow> world \<Rightarrow> bool list list" where
  "tick_writes L [] w = []"
| "tick_writes L (env # envs) w =
     (let w' = snd (OnCoronaEnterFrame env (Some L) w)
      in drop (length (isVisibleWrites w)) (isVisibleWrites w') # tick_writes L envs w')"

text \<open>The three call-result tasks that carry a business failure flag of their own.\<close>

fun has_fIsError :: "event_data \<Rightarrow> bool" where
  "has_fIsError (LeaderboardFindResult _ _ _ _ _) = True"
| "has_fIsError (LeaderboardScoreUpload _ _ _ _ _) = True"
| "has_fIsError (NumberOfCurrentPlayers _ _) = True"
| "has_fIsError _ = False"

fun with_fIsError :: "bool \<Rightarrow> event_data \<Rightarrow> event_data" where
  "with_fIsError v (LeaderboardFindResult _ h n d s) = LeaderboardFindResult v h n d s"
| "with_fIsError v (LeaderboardScoreUpload _ h c r p) = LeaderboardScoreUpload v h c r p"
| "with_fIsError v (NumberOfCurrentPlayers _ n) = NumberOfCurrentPlayers v n"
| "with_fIsError v d = d"

text \<open>The image a task needs from the SDK cache at the time it is serialized, if any.\<close>

fun image_needed :: "event_data \<Rightarrow> int32 option" where
  "image_needed (UserAchievementIconFetched _ _ imageHandle) = Some imageHandle"
| "image_needed _ = None"


text \<open>An entry point reports failure: it returns the single value false, or the single value nil.\<close>

definition reports_failure :: "lua_return \<Rightarrow> bool" where
  "reports_failure r = (r = Inr [LBoolean False] \<or> r = Inr [LNil])"

text \<open>The second state differs from the first in nothing but added diagnostic messages.\<close>

definition only_diagnostics :: "world \<Rightarrow> world \<Rightarrow> bool" where
  "only_diagnostics w w' = (w'\<lparr>diagnostics := []\<rparr> = w\<lparr>diagnostics := []\<rparr>)"

text \<open>
  Nothing was queued, no call-result handler was registered, the cache and the other
  members of the context are as before, nothing was dispatched, and no request went to
  the SDK.
\<close>

definition no_task_no_request :: "world \<Rightarrow> world \<Rightarrow> bool" where
  "no_task_no_request w w' =
     (ctx w' = ctx w \<and> dispatched w' = dispatched w \<and> steam_requests w' = steam_requests w)"


text \<open>The user id that a task carries into its event record, if it carries one.\<close>

fun user_id_of :: "event_data \<Rightarrow> uint64 option" where
  "user_id_of (PersonaStateChanged userIntegerId _ _) = Some userIntegerId"
| "user_id_of (UserStatsReceived userIntegerId _) = Some userIntegerId"
| "user_id_of (UserStatsStored userIntegerId _) = Some userIntegerId"
| "user_id_of (UserStatsUnloaded userIntegerId) = Some userIntegerId"
| "user_id_of _ = None"

text \<open>
  For an element of the array given to \<open>setUserStatValues\<close>: the call it asks for, if it
  is not refused, and whether that call succeeds.
\<close>

definition requested_call :: "platform \<Rightarrow> lua_value \<Rightarrow> steam_request option" where
  "requested_call P element = (case stat_update P element of Inl _ \<Rightarrow> None | Inr r \<Rightarrow> Some r)"

definition sets_a_stat :: "platform \<Rightarrow> ISteamUserStats \<Rightarrow> lua_value \<Rightarrow> bool" where
  "sets_a_stat P steamUserStatsPointer element =
     (case stat_update P element of Inl _ \<Rightarrow> False | Inr r \<Rightarrow> set_stat steamUserStatsPointer r)"

text \<open>
  The integer that is to be written for a value of an integer stat: the value rounded to
  the nearest integer and then clamped into the range of a signed 32-bit integer,
  [-2147483648, 2147483647].
\<close>

definition rounded_and_clamped :: "real \<Rightarrow> int" where
  "rounded_and_clamped x = max (- 2147483648) (min 2147483647 (round x))"

text \<open>An entry point call that reports failure and adds nothing but diagnostic messages.\<close>

definition quiet_failure :: "lua_return \<times> world \<Rightarrow> world \<Rightarrow> bool" where
  "quiet_failure rw w = (reports_failure (fst rw) \<and> only_diagnostics w (snd rw))"


subsection \<open>Sample values\<close>

definition example_utils :: "bool \<Rightarrow> ISteamUtils" where
  "example_utils overlay =
     \<lparr>BOverlayNeedsPresent = overlay, GetAppID = 480,
      GetImageSize = (\<lambda>h. if h = 7 then Some (64, 64) else None), IsOverlayEnabled = True\<rparr>"

text \<open>An SDK of which only the utilities interface is available.\<close>

definition example_sdk :: "bool \<Rightarrow> steam_sdk" where
  "example_sdk overlay = sdk_not_running\<lparr>SteamUtils := Some (example_utils overlay)\<rparr>"

definition example_dispatcher :: LuaEventDispatcher where
  "example_dispatcher = \<lparr>GetLuaState = Some 1, DispatchEventWithoutResult = (\<lambda>e. True)\<rparr>"

definition example_world :: world where
  "example_world =
     \<lparr>ctx = RuntimeContext_new example_dispatcher, dispatched = [], isVisibleWrites = [],
      steam_requests = [], dispatcher_calls = [], diagnostics = []\<rparr>"

definition example_display :: lua_value where
  "example_display = LTable [] [(''currentStage'', LTable [] [(''isVisible'', LBoolean True)])]"

definition example_env :: "bool \<Rightarrow> steam_event list \<Rightarrow> frame_env" where
  "example_env overlay evs =
     \<lparr>sdk = example_sdk overlay, pending_callbacks = evs, display = example_display\<rparr>"


definition example_platform :: platform where
  "example_platform =
     \<lparr>CSteamID_IsValid = (\<lambda>i. True), getenv_SteamAppId = None, long_bits = 64,
      lround_out_of_range = (\<lambda>x. 0), tointeger_not_finite = (\<lambda>x. 0),
      double_to_float = (\<lambda>x. x), CoronaExternalPushTexture = (\<lambda>h. []),
      lua_getglobal = (\<lambda>n. LNil), CoronaLuaDoCall = (\<lambda>f args. (0, []))\<rparr>"


definition example_stats :: ISteamUserStats where
  "example_stats =
     \<lparr>GetAchievementIcon = (\<lambda>n. 0),
      GetUserAchievementAndUnlockTime = (\<lambda>i n. None),
      GetAchievementAndUnlockTime = (\<lambda>n. None),
      GetAchievementDisplayAttribute = (\<lambda>n k. None),
      GetUserStatInt = (\<lambda>i n. None), GetStatInt = (\<lambda>n. None),
      GetUserStatFloat = (\<lambda>i n. None), GetStatFloat = (\<lambda>n. None),
      GetNumberOfCurrentPlayers = 1, FindLeaderboard = (\<lambda>n. 1),
      DownloadLeaderboardEntries = (\<lambda>h sc a b. 1), UploadLeaderboardScore = (\<lambda>h v. 1),
      RequestUserStats = (\<lambda>i. 1), RequestCurrentStats = True, ResetAllStats = (\<lambda>b. True),
      IndicateAchievementProgress = (\<lambda>n c m. True), SetAchievement = (\<lambda>n. True),
      SetStatInt = (\<lambda>n v. True), SetStatFloat = (\<lambda>n v. True),
      UpdateAvgRateStat = (\<lambda>n v t. True),
      GetNumAchievements = 0, GetAchievementName = (\<lambda>i. None),
      GetLeaderboardName = (\<lambda>h. None), GetLeaderboardEntryCount = (\<lambda>h. 0),
      GetLeaderboardSortMethod = (\<lambda>h. 0), GetLeaderboardDisplayType = (\<lambda>h. 0),
      GetDownloadedLeaderboardEntry = (\<lambda>h i. None)\<rparr>"

text \<open>A host on which the Lua global \<open>display\<close> is nil, with the overlay needing presenting.\<close>

definition example_env_without_display :: frame_env where
  "example_env_without_display =
     \<lparr>sdk = example_sdk True, pending_callbacks = [], display = LNil\<rparr>"

text \<open>
  A platform with a 64-bit \<open>long\<close> on which \<open>std::lround\<close> returns \<open>LONG_MIN\<close> for an
  argument it cannot round into a \<open>long\<close>, as the C libraries for x86-64 do.
\<close>

definition lp64_platform :: platform where
  "lp64_platform = example_platform\<lparr>long_bits := 64, lround_out_of_range := (\<lambda>v. - (2 ^ 63))\<rparr>"

text \<open>The same with a 32-bit \<open>long\<close>, as the C libraries for Windows have it.\<close>

definition llp64_platform :: platform where
  "llp64_platform = example_platform\<lparr>long_bits := 32, lround_out_of_range := (\<lambda>v. - (2 ^ 31))\<rparr>"

text \<open>An SDK that has the user stats interface only, and knows the one stat \<open>games\<close>.\<close>

definition games_only_stats :: ISteamUserStats where
  "games_only_stats = example_stats\<lparr>SetStatInt := (\<lambda>name v. name = ''games'')\<rparr>"

definition games_only_sdk :: steam_sdk where
  "games_only_sdk = sdk_not_running\<lparr>SteamUserStats := Some games_only_stats\<rparr>"

text \<open>
  An array for \<open>setUserStatValues\<close>: the boolean true, a table with no stat name, and
  four stats of integer type with the values 2.5, -2.5, 7.25 and 1e22.
\<close>

definition stat_element :: "string \<Rightarrow> string \<Rightarrow> real \<Rightarrow> lua_value" where
  "stat_element name type v =
     LTable [] [(''statName'', LString name), (''type'', LString type), (''value'', LNumber (Finite v))]"

definition example_stat_array :: "lua_value list" where
  "example_stat_array =
     [LBoolean True,
      LTable [] [(''type'', LString ''int''), (''value'', LNumber (Finite 1))],
      stat_element ''games'' ''int'' (5 / 2),
      stat_element ''debt'' ''int'' (- (5 / 2)),
      stat_element ''coins'' ''int'' (29 / 4),
      stat_element ''feet'' ''int'' (10 ^ 22)]"


section \<open>Properties\<close>

text \<open>
  C5. For every SteamImageInfo value, IsValid() is true exactly when the image handle is
  neither 0 nor -1 and both the pixel width and the pixel height are strictly positive;
  IsNotValid() is its exact negation.
\<close>

theorem C5_IsValid_iff:
  "IsValid i = (fImageHandle i \<noteq> 0 \<and> fImageHandle i \<noteq> - 1
                 \<and> 0 < unat (fPixelWidth i) \<and> 0 < unat (fPixelHeight i))
   \<and> IsNotValid i = (\<not> IsValid i)"
  by (simp add: IsValid_def IsNotValid_def unat_gt_0 word_neq_0_conv)


subsection \<open>The poll step: draining the queue\<close>

lemma Execute_ctx: "ctx (snd (Execute s t w)) = ctx w"
  by (simp add: Execute_def split: option.splits)

lemma Execute_world:
  "snd (Execute s t w) =
     w\<lparr>dispatched := dispatched w @ (case delivery s t of None \<Rightarrow> [] | Some e \<Rightarrow> [e])\<rparr>"
  by (simp add: Execute_def delivery_def split: option.splits)

lemma queued_delivery_simps:
  "queued_delivery s None = None" "queued_delivery s (Some t) = delivery s t"
  by (simp_all add: queued_delivery_def)

lemma drain_queue_eq:
  "fDispatchEventTaskQueue (ctx w) = q \<Longrightarrow>
   drain_queue s w =
     w\<lparr>ctx := (ctx w)\<lparr>fDispatchEventTaskQueue := []\<rparr>,
       dispatched := dispatched w @ List.map_filter (queued_delivery s) q\<rparr>"
proof (induction q arbitrary: w)
  case Nil
  then show ?case by (simp add: drain_queue.simps List.map_filter_simps)
next
  case (Cons p q)
  let ?w1 = "w\<lparr>ctx := (ctx w)\<lparr>fDispatchEventTaskQueue := q\<rparr>\<rparr>"
  show ?case
  proof (cases p)
    case None
    with Cons.prems Cons.IH[of ?w1] show ?thesis
      by (subst drain_queue.simps) (simp add: List.map_filter_simps queued_delivery_simps)
  next
    case (Some t)
    have q: "fDispatchEventTaskQueue (ctx (snd (Execute s t ?w1))) = q"
      by (simp add: Execute_ctx)
    show ?thesis
      using Cons.prems Some Cons.IH[OF q]
      by (subst drain_queue.simps)
         (simp add: List.map_filter_simps queued_delivery_simps Execute_world split: option.splits)
  qed
qed

text \<open>The callback handlers only ever append to the queue and touch nothing else.\<close>

lemma OnHandleGlobalSteamEvent_queue:
  "\<exists>new. fDispatchEventTaskQueue (OnHandleGlobalSteamEvent s e c) = fDispatchEventTaskQueue c @ new"
  by (cases e) (simp_all add: OnHandleGlobalSteamEvent_def push_task_def Let_def)

lemma OnSteamCallback_queue:
  "\<exists>new. fDispatchEventTaskQueue (OnSteamCallback s ev c) = fDispatchEventTaskQueue c @ new"
proof (cases ev)
  case (WithGameId g)
  show ?thesis
    using OnHandleGlobalSteamEvent_queue[of s "Some (WithGameId g)" c]
    unfolding WithGameId
    by (simp add: OnHandleGlobalSteamEventWithGameId_def split: option.splits)
qed (simp_all add: OnHandleGlobalSteamEvent_queue)

lemma fold_OnSteamCallback_queue:
  "\<exists>new. fDispatchEventTaskQueue (fold (OnSteamCallback s) evs c) = fDispatchEventTaskQueue c @ new"
proof (induction evs arbitrary: c)
  case Nil
  show ?case by simp
next
  case (Cons ev evs)
  obtain n1 where 1: "fDispatchEventTaskQueue (OnSteamCallback s ev c) = fDispatchEventTaskQueue c @ n1"
    using OnSteamCallback_queue by blast
  obtain n2 where 2: "fDispatchEventTaskQueue (fold (OnSteamCallback s) evs (OnSteamCallback s ev c))
        = fDispatchEventTaskQueue (OnSteamCallback s ev c) @ n2"
    using Cons.IH by blast
  have "fDispatchEventTaskQueue (fold (OnSteamCallback s) (ev # evs) c)
          = fDispatchEventTaskQueue c @ (n1 @ n2)"
    by (simp add: 2 1)
  then show ?case by blast
qed

lemma OnHandleGlobalSteamEvent_frame:
  "(OnHandleGlobalSteamEvent s e c)\<lparr>fDispatchEventTaskQueue := q\<rparr> = c\<lparr>fDispatchEventTaskQueue := q\<rparr>"
  by (cases e) (simp_all add: OnHandleGlobalSteamEvent_def push_task_def Let_def)

lemma OnSteamCallback_frame:
  "(OnSteamCallback s ev c)\<lparr>fDispatchEventTaskQueue := q\<rparr> = c\<lparr>fDispatchEventTaskQueue := q\<rparr>"
proof (cases ev)
  case (WithGameId g)
  show ?thesis
    unfolding WithGameId
    by (simp add: OnHandleGlobalSteamEventWithGameId_def OnHandleGlobalSteamEvent_frame
             split: option.splits)
qed (simp_all add: OnHandleGlobalSteamEvent_frame)

lemma SteamAPI_RunCallbacks_frame:
  "(SteamAPI_RunCallbacks env c)\<lparr>fDispatchEventTaskQueue := q\<rparr> = c\<lparr>fDispatchEventTaskQueue := q\<rparr>"
proof -
  have "(fold (OnSteamCallback s) evs c)\<lparr>fDispatchEventTaskQueue := q\<rparr>
          = c\<lparr>fDispatchEventTaskQueue := q\<rparr>" for s evs
    by (induction evs arbitrary: c) (simp_all add: OnSteamCallback_frame)
  then show ?thesis by (simp add: SteamAPI_RunCallbacks_def)
qed

text \<open>The state after one tick with a non-null Lua state, in closed form.\<close>

lemma OnCoronaEnterFrame_world:
  "snd (OnCoronaEnterFrame env (Some L) w) =
     (let w2 = w\<lparr>ctx := (ctx w)\<lparr>fDispatchEventTaskQueue := []\<rparr>,
                 dispatched := dispatched w @ List.map_filter (queued_delivery (sdk env))
                     (fDispatchEventTaskQueue (SteamAPI_RunCallbacks env (ctx w)))\<rparr>
      in if overlay_needs_present env \<or> fWasRenderRequested (ctx w)
         then (case toggle_stage_visibility (display env) of
                 Inl e \<Rightarrow> w2
               | Inr writes \<Rightarrow>
                   w2\<lparr>isVisibleWrites := isVisibleWrites w @ writes,
                      ctx := (ctx w2)\<lparr>fWasRenderRequested := overlay_needs_present env\<rparr>\<rparr>)
         else w2\<lparr>ctx := (ctx w2)\<lparr>fWasRenderRequested := overlay_needs_present env\<rparr>\<rparr>)"
proof -
  let ?w1 = "w\<lparr>ctx := SteamAPI_RunCallbacks env (ctx w)\<rparr>"
  have d: "drain_queue (sdk env) ?w1 =
      ?w1\<lparr>ctx := (ctx ?w1)\<lparr>fDispatchEventTaskQueue := []\<rparr>,
        dispatched := dispatched ?w1 @ List.map_filter (queued_delivery (sdk env))
              (fDispatchEventTaskQueue (SteamAPI_RunCallbacks env (ctx w)))\<rparr>"
    by (rule drain_queue_eq) simp
  show ?thesis
    by (simp add: OnCoronaEnterFrame_def Let_def d overlay_needs_present_def
                  SteamAPI_RunCallbacks_frame split: sum.splits)
qed

text \<open>
  C1. On a poll tick (a call of OnCoronaEnterFrame with a Lua state), after the SDK
  callback pump has run, the drain loop leaves the pending queue empty; the event tables
  handed to the Lua dispatcher during the tick are those of the queued tasks, in queue
  order, first in first out, where the pump only appends to what was queued before; a
  task that hands over nothing (null task pointer, null dispatcher, null Lua state, or a
  failed push of its event table) is passed over and the tasks behind it are still
  delivered. The last two conjuncts say what one Execute() does and when it delivers
  nothing.
\<close>

theorem C1_drain_fifo:
  "fDispatchEventTaskQueue (ctx (snd (OnCoronaEnterFrame env (Some L) w))) = []
   \<and> dispatched (snd (OnCoronaEnterFrame env (Some L) w)) =
       dispatched w @ List.map_filter (queued_delivery (sdk env))
          (fDispatchEventTaskQueue (SteamAPI_RunCallbacks env (ctx w)))
   \<and> (\<exists>new. fDispatchEventTaskQueue (SteamAPI_RunCallbacks env (ctx w))
              = fDispatchEventTaskQueue (ctx w) @ new)
   \<and> snd (Execute (sdk env) t v)
       = v\<lparr>dispatched := dispatched v @ (case delivery (sdk env) t of None \<Rightarrow> [] | Some e \<Rightarrow> [e])\<rparr>
   \<and> (delivery (sdk env) t = None) =
       (fLuaEventDispatcherPointer t = None
        \<or> (\<exists>d. fLuaEventDispatcherPointer t = Some d
               \<and> (GetLuaState d = None
                   \<or> PushLuaEventTableTo (sdk env) (GetLuaState d) t = None)))"
proof -
  have 3: "\<exists>new. fDispatchEventTaskQueue (SteamAPI_RunCallbacks env (ctx w))
              = fDispatchEventTaskQueue (ctx w) @ new"
    using fold_OnSteamCallback_queue unfolding SteamAPI_RunCallbacks_def by blast
  have 1: "fDispatchEventTaskQueue (ctx (snd (OnCoronaEnterFrame env (Some L) w))) = []"
    by (simp add: OnCoronaEnterFrame_world Let_def split: sum.splits)
  have 2: "dispatched (snd (OnCoronaEnterFrame env (Some L) w)) =
       dispatched w @ List.map_filter (queued_delivery (sdk env))
          (fDispatchEventTaskQueue (SteamAPI_RunCallbacks env (ctx w)))"
    by (simp add: OnCoronaEnterFrame_world Let_def split: sum.splits)
  have 5: "(delivery (sdk env) t = None) =
       (fLuaEventDispatcherPointer t = None
        \<or> (\<exists>d. fLuaEventDispatcherPointer t = Some d
               \<and> (GetLuaState d = None
                   \<or> PushLuaEventTableTo (sdk env) (GetLuaState d) t = None)))"
    by (auto simp: delivery_def split: option.splits)
  show ?thesis using 1 2 3 5 Execute_world by blast
qed



subsection \<open>The poll step: forcing a redraw\<close>

lemma toggle_stage:
  "stage_visibility env = Some v \<Longrightarrow> toggle_stage_visibility (display env) = Inr [\<not> v, v]"
  by (auto simp: stage_visibility_def toggle_stage_visibility_def split: lua_value.splits)

lemma frame_toggle:
  assumes "stage_visibility env = Some v"
  shows "drop (length (isVisibleWrites w)) (isVisibleWrites (snd (OnCoronaEnterFrame env (Some L) w)))
           = (if overlay_needs_present env \<or> fWasRenderRequested (ctx w) then [\<not> v, v] else [])"
    and "fWasRenderRequested (ctx (snd (OnCoronaEnterFrame env (Some L) w)))
           = overlay_needs_present env"
  by (simp_all add: OnCoronaEnterFrame_world Let_def toggle_stage[OF assms])

text \<open>
  C3 (as amended). Over any run of poll ticks, each entered with a Lua state, on a host
  that offers a stage to toggle, that is, on every tick of the run
  \<open>display.currentStage.isVisible\<close> is a boolean v: tick k
  toggles the stage, writing first not v and then v to \<open>isVisible\<close>, which is what forces
  the host to redraw, if the SDK reports on tick k that the overlay needs presenting or it
  reported so on tick k - 1; otherwise tick k writes nothing to the stage. On the first
  tick of the run the place of the preceding report is taken by the flag
  fWasRenderRequested, which the constructor sets to false and every such tick sets to
  that tick's report. Hence the forcing goes on for exactly one tick after the overlay
  stops needing presentation.
\<close>

theorem C3_redraw_one_extra_tick:
  assumes "map stage_visibility envs = map Some vs" and "k < length envs"
  shows "tick_writes L envs w ! k =
           (if overlay_needs_present (envs ! k)
               \<or> (if k = 0 then fWasRenderRequested (ctx w)
                   else overlay_needs_present (envs ! (k - 1)))
            then [\<not> vs ! k, vs ! k] else [])"
  using assms
proof (induction envs arbitrary: w k vs)
  case Nil
  then show ?case by simp
next
  case (Cons env envs)
  then obtain v vs' where vs: "vs = v # vs'" by (cases vs) auto
  have r: "stage_visibility env = Some v" and rest: "map stage_visibility envs = map Some vs'"
    using Cons.prems(1) vs by simp_all
  let ?w' = "snd (OnCoronaEnterFrame env (Some L) w)"
  show ?case
  proof (cases k)
    case 0
    then show ?thesis by (simp add: Let_def frame_toggle(1)[OF r] vs)
  next
    case (Suc j)
    have j: "j < length envs" using Cons.prems Suc by simp
    have ih: "tick_writes L envs ?w' ! j =
           (if overlay_needs_present (envs ! j)
               \<or> (if j = 0 then fWasRenderRequested (ctx ?w')
                   else overlay_needs_present (envs ! (j - 1)))
            then [\<not> vs' ! j, vs' ! j] else [])"
      using Cons.IH[OF rest j] .
    show ?thesis
      using Suc ih frame_toggle(2)[OF r, of L w]
      by (cases j) (simp_all add: Let_def vs)
  qed
qed

text \<open>
  Three ticks on a fresh context, the stage visible: the overlay needs presenting on the
  first tick only; the first and the second tick write false and then true to the stage,
  the third tick writes nothing.
\<close>

theorem C3_witness:
  "map stage_visibility [example_env True [], example_env False [], example_env False []]
     = map Some [True, True, True]
   \<and> tick_writes 1 [example_env True [], example_env False [], example_env False []]
        example_world ! 0 = [False, True]
   \<and> tick_writes 1 [example_env True [], example_env False [], example_env False []]
        example_world ! 1 = [False, True]
   \<and> tick_writes 1 [example_env True [], example_env False [], example_env False []]
        example_world ! 2 = []"
proof -
  let ?envs = "[example_env True [], example_env False [], example_env False []]"
  have a: "map stage_visibility ?envs = map Some [True, True, True]"
    by (simp add: stage_visibility_def example_env_def example_display_def lua_getfield_def)
  have o: "overlay_needs_present (example_env True [])"
          "\<not> overlay_needs_present (example_env False [])"
    by (simp_all add: overlay_needs_present_def example_env_def example_sdk_def example_utils_def)
  have f: "\<not> fWasRenderRequested (ctx example_world)"
    by (simp add: example_world_def RuntimeContext_new_def)
  show ?thesis
    using C3_redraw_one_extra_tick[OF a, of 0 1 example_world]
          C3_redraw_one_extra_tick[OF a, of 1 1 example_world]
          C3_redraw_one_extra_tick[OF a, of 2 1 example_world] a o f
    by simp
qed

text \<open>
  The claim as stated, for every execution of the poll step, fails on a host that offers
  no stage: with the Lua global \<open>display\<close> nil, a tick on which the SDK reports that the
  overlay needs presenting returns normally, having set the flag, and writes nothing to
  the stage, so the host is not signalled.
\<close>

theorem C3_counterexample:
  "overlay_needs_present example_env_without_display
   \<and> OnCoronaEnterFrame example_env_without_display (Some 1) example_world
       = (Returned 0,
          example_world\<lparr>ctx := (ctx example_world)\<lparr>fWasRenderRequested := True\<rparr>\<rparr>)
   \<and> tick_writes 1 [example_env_without_display] example_world = [[]]"
proof -
  have o: "overlay_needs_present example_env_without_display"
    by (simp add: overlay_needs_present_def example_env_without_display_def example_sdk_def
          example_utils_def)
  have q: "fDispatchEventTaskQueue (ctx example_world) = []" "dispatched example_world = []"
    "isVisibleWrites example_world = []"
    by (simp_all add: example_world_def RuntimeContext_new_def)
  have s: "snd (OnCoronaEnterFrame example_env_without_display (Some 1) example_world)
       = example_world\<lparr>ctx := (ctx example_world)\<lparr>fWasRenderRequested := True\<rparr>\<rparr>"
    using o
    by (simp add: OnCoronaEnterFrame_world Let_def toggle_stage_visibility_def
          example_env_without_display_def SteamAPI_RunCallbacks_def q List.map_filter_simps
          example_world_def RuntimeContext_new_def)
  have f: "fst (OnCoronaEnterFrame example_env_without_display (Some 1) example_world) = Returned 0"
    using o
    by (simp add: OnCoronaEnterFrame_def Let_def toggle_stage_visibility_def
          example_env_without_display_def overlay_needs_present_def split: option.splits)
  show ?thesis using o s f by (simp add: prod_eq_iff q)
qed

subsection \<open>The leaderboard handle cache\<close>

text \<open>
  C4. GetCachedLeaderboardHandleByName(name) returns the handle cached for the name if
  there is one and zero otherwise, zero also for a null name; it leaves the whole state
  as it was: the cache and the rest of the runtime context, and the list of requests made
  to the SDK.
\<close>

theorem C4_cached_handle:
  "fst (GetCachedLeaderboardHandleByName name w) =
     (case name of
        None \<Rightarrow> 0
      | Some n \<Rightarrow> (case fLeaderboardNameHandleMap (ctx w) n of None \<Rightarrow> 0 | Some h \<Rightarrow> h))
   \<and> snd (GetCachedLeaderboardHandleByName name w) = w"
  by (simp add: GetCachedLeaderboardHandleByName_def split: option.splits)

subsection \<open>Event records\<close>

lemma fields_simps:
  "lua_getfield (set_fields ((k, v) # kvs) t) f = lua_getfield (set_fields kvs (lua_setfield k v t)) f"
  by (simp add: set_fields_def)

lemma getfield_sets:
  "lua_getfield (lua_setfield k v t) f = (if f = k then v else lua_getfield t f)"
  by (simp add: lua_getfield_def lua_setfield_def update_conv')

lemma getfield_set_fields_notin:
  "f \<notin> fst ` set kvs \<Longrightarrow> lua_getfield (set_fields kvs t) f = lua_getfield t f"
  by (induction kvs arbitrary: t) (auto simp: set_fields_def getfield_sets)

lemma getfield_set_fields_hd:
  "f \<notin> fst ` set kvs \<Longrightarrow> lua_getfield (set_fields ((f, v) # kvs) t) f = v"
  by (simp add: fields_simps getfield_set_fields_notin getfield_sets)

text \<open>
  C7. For the three call-result tasks with a failure flag of their own (leaderboard find,
  leaderboard score upload, active player count), the record always carries an isError
  field, and it is true exactly when the business failure flag fIsError or the I/O failure
  flag is set. The record depends on the two flags through their disjunction only: two
  tasks that differ in nothing but which of the two failures occurred serialize to the
  same record.
\<close>

theorem C7_isError_flag:
  assumes "has_fIsError (payload t)"
  shows "(\<exists>fields. PushLuaEventTableTo s (Some L) t = Some (LTable [] fields)
            \<and> lua_getfield fields ''isError'' = LBoolean (fIsError (payload t) \<or> HadIOFailure t))
       \<and> ((a \<or> b) = (a' \<or> b') \<longrightarrow>
            PushLuaEventTableTo s (Some L)
              (t\<lparr>fHadIOFailure := b, payload := with_fIsError a (payload t)\<rparr>)
          = PushLuaEventTableTo s (Some L)
              (t\<lparr>fHadIOFailure := b', payload := with_fIsError a' (payload t)\<rparr>))"
proof (cases "payload t")
  case (LeaderboardFindResult e h n d m)
  then show ?thesis
    by (auto simp: PushLuaEventTableTo_def Let_def HadIOFailure_def getfield_set_fields_hd)
next
  case (LeaderboardScoreUpload e h c r p)
  then show ?thesis
    by (auto simp: PushLuaEventTableTo_def Let_def HadIOFailure_def getfield_set_fields_hd)
next
  case (NumberOfCurrentPlayers e n)
  then show ?thesis
    by (auto simp: PushLuaEventTableTo_def Let_def HadIOFailure_def getfield_set_fields_hd)
qed (use assms in simp_all)

text \<open>
  A player count that arrived with an I/O failure and one that the SDK reported as
  unsuccessful: both records say isError, and they are the same record.
\<close>

theorem C7_witness:
  "has_fIsError (payload (task_new (NumberOfCurrentPlayers False 5)))
   \<and> (\<exists>fields. PushLuaEventTableTo sdk_not_running (Some 1)
                  (SetHadIOFailure True (task_new (NumberOfCurrentPlayers False 5)))
                = Some (LTable [] fields)
              \<and> lua_getfield fields ''isError'' = LBoolean True)
   \<and> PushLuaEventTableTo sdk_not_running (Some 1)
        ((task_new (NumberOfCurrentPlayers False 5))
           \<lparr>fHadIOFailure := True, payload := NumberOfCurrentPlayers False 5\<rparr>)
     = PushLuaEventTableTo sdk_not_running (Some 1)
        ((task_new (NumberOfCurrentPlayers False 5))
           \<lparr>fHadIOFailure := False, payload := NumberOfCurrentPlayers True 5\<rparr>)"
proof -
  have h: "has_fIsError (payload (SetHadIOFailure True (task_new (NumberOfCurrentPlayers False 5))))"
          "has_fIsError (payload (task_new (NumberOfCurrentPlayers False 5)))"
    by (simp_all add: task_new_def SetHadIOFailure_def)
  show ?thesis
    using C7_isError_flag[OF h(1), of sdk_not_running 1 False False False False]
          C7_isError_flag[OF h(2), of sdk_not_running 1 False True True False]
    by (simp add: task_new_def SetHadIOFailure_def HadIOFailure_def)
qed

text \<open>
  C8 (as amended). Called with a Lua state, PushLuaEventTableTo of every task class but
  the achievement icon task always produces the event record, whatever the SDK holds at
  that time. The achievement icon task produces its record exactly when the SDK still
  gives a valid image info for the stored icon handle; once the image has left the
  SDK's cache the function returns false and no record is produced.
\<close>

theorem C8_serialize_degrades:
  "(\<exists>r. PushLuaEventTableTo s (Some L) t = Some r)
     = (case image_needed (payload t) of
          None \<Rightarrow> True
        | Some h \<Rightarrow> IsValid (FromImageHandle s h))"
  by (cases "payload t") (simp_all add: PushLuaEventTableTo_def Let_def IsNotValid_def)

text \<open>
  The claim as stated fails: an achievement icon task whose image (handle 3) is not in
  the SDK's cache when the task is serialized produces no record at all.
\<close>

theorem C8_counterexample:
  "PushLuaEventTableTo (example_sdk False) (Some 1)
     (task_new (UserAchievementIconFetched ''ACH_WIN_ONE_GAME'' True 3)) = None"
  by (simp add: PushLuaEventTableTo_def task_new_def example_sdk_def example_utils_def
        FromImageHandle_def IsNotValid_def IsValid_def SteamImageInfo_new_def sdk_not_running_def)

subsection \<open>Events of other applications\<close>

text \<open>
  C10. For each of the four global events that carry a game id (achievement icon
  fetched, achievement stored, user stats received, user stats stored): when the SDK
  utilities interface is available and the event's game id differs from the game id of
  the running application, the handler leaves the runtime context as it was; no task is
  created or queued.
\<close>

theorem C10_foreign_game_event_dropped:
  assumes "SteamUtils s = Some u" and "CGameID_of_AppId (GetAppID u) \<noteq> m_nGameID ev"
  shows "OnHandleGlobalSteamEventWithGameId s (Some ev) c = c
       \<and> OnSteamCallback s (WithGameId ev) c = c"
  using assms by (simp add: OnHandleGlobalSteamEventWithGameId_def)

theorem C10_witness:
  "SteamUtils (example_sdk False) = Some (example_utils False)
   \<and> CGameID_of_AppId (GetAppID (example_utils False)) \<noteq> m_nGameID (UserStatsStored_t 570 1)
   \<and> OnSteamCallback (example_sdk False) (WithGameId (UserStatsStored_t 570 1))
        (RuntimeContext_new example_dispatcher)
      = RuntimeContext_new example_dispatcher"
proof -
  have 1: "SteamUtils (example_sdk False) = Some (example_utils False)"
    by (simp add: example_sdk_def)
  have 2: "CGameID_of_AppId (GetAppID (example_utils False)) \<noteq> m_nGameID (UserStatsStored_t 570 1)"
    by (simp add: example_utils_def CGameID_of_AppId_def)
  show ?thesis using C10_foreign_game_event_dropped[OF 1 2] 1 2 by simp
qed



subsection \<open>Entry points with the Steam client not running\<close>

lemma sdk_not_running_simps [simp]:
  "SteamUtils sdk_not_running = None" "SteamUser sdk_not_running = None"
  "SteamApps sdk_not_running = None" "SteamFriends sdk_not_running = None"
  "SteamUserStats sdk_not_running = None"
  by (simp_all add: sdk_not_running_def)

lemma not_running_image [simp]:
  "IsNotValid (FromImageHandle sdk_not_running h)"
  "\<not> CanShowSteamOverlay sdk_not_running"
  by (simp_all add: FromImageHandle_def IsNotValid_def IsValid_def SteamImageInfo_new_def
        CanShowSteamOverlay_def)

lemma only_diagnostics_simps [simp]:
  "only_diagnostics w w"
  "only_diagnostics w (log_error m w)"
  "only_diagnostics w (log_warning m w)"
  by (simp_all add: only_diagnostics_def log_error_def log_warning_def)

lemma only_diagnostics_log [simp]:
  "only_diagnostics w w1 \<Longrightarrow> only_diagnostics w (log_error m w1)"
  "only_diagnostics w w1 \<Longrightarrow> only_diagnostics w (log_warning m w1)"
  by (simp_all add: only_diagnostics_def log_error_def log_warning_def)

lemma only_diagnostics_no_task:
  "only_diagnostics w w' \<Longrightarrow> no_task_no_request w w'"
proof -
  assume a: "only_diagnostics w w'"
  have "ctx (w'\<lparr>diagnostics := []\<rparr>) = ctx (w\<lparr>diagnostics := []\<rparr>)"
       "dispatched (w'\<lparr>diagnostics := []\<rparr>) = dispatched (w\<lparr>diagnostics := []\<rparr>)"
       "steam_requests (w'\<lparr>diagnostics := []\<rparr>) = steam_requests (w\<lparr>diagnostics := []\<rparr>)"
    using a unfolding only_diagnostics_def by simp_all
  then show ?thesis by (simp add: no_task_no_request_def)
qed

lemma read_user_steam_id_cases:
  obtains r w1 where "read_user_steam_id P v m w = (r, w1)" and "only_diagnostics w w1"
proof -
  have "only_diagnostics w (snd (read_user_steam_id P v m w))"
    by (simp add: read_user_steam_id_def Let_def split: option.splits)
  then show ?thesis by (cases "read_user_steam_id P v m w") (auto intro: that)
qed

lemma quiet_failure_simps [simp]:
  "quiet_failure (Inr [LNil], w1) w = only_diagnostics w w1"
  "quiet_failure (Inr [LBoolean False], w1) w = only_diagnostics w w1"
  by (simp_all add: quiet_failure_def reports_failure_def)

lemma sdk_null_1: "quiet_failure (OnGetAchievementImageInfo P sdk_not_running u (Some st) w) w"
  by (simp add: OnGetAchievementImageInfo_def split: option.splits)

lemma sdk_null_2: "quiet_failure (OnGetAchievementInfo P sdk_not_running u (Some st) w) w"
proof -
  obtain r w1 where rw: "read_user_steam_id P (stack_at st 2) ''2nd argument (userSteamId) is not of type string.'' w = (r, w1)"
    and d: "only_diagnostics w w1" by (rule read_user_steam_id_cases)
  show ?thesis using d
    by (simp add: OnGetAchievementInfo_def rw split: option.splits sum.splits)
qed

lemma sdk_null_4: "quiet_failure (OnGetUserImageInfo P sdk_not_running u (Some st) w) w"
proof -
  obtain r w1 where rw: "read_user_steam_id P (stack_at st 2) ''Argument (userSteamId) is not of type string.'' w = (r, w1)"
    and d: "only_diagnostics w w1" by (rule read_user_steam_id_cases)
  show ?thesis using d
    by (simp add: OnGetUserImageInfo_def rw Let_def split: option.splits sum.splits)
qed

lemma sdk_null_5: "quiet_failure (OnGetUserInfo P sdk_not_running u (Some st) w) w"
proof -
  obtain r w1 where rw: "read_user_steam_id P (stack_at st (Suc 0)) ''Argument (userSteamId) is not of type string.'' w = (r, w1)"
    and d: "only_diagnostics w w1" by (rule read_user_steam_id_cases)
  show ?thesis using d
    by (simp add: OnGetUserInfo_def rw Let_def split: option.splits sum.splits)
qed

lemma sdk_null_6: "quiet_failure (OnGetUserStatValue P sdk_not_running u (Some st) w) w"
  by (simp add: OnGetUserStatValue_def Let_def split: option.splits sum.splits prod.splits)

lemma sdk_null_7: "quiet_failure (OnNewImageRect P sdk_not_running u (Some st) w) w"
  by (simp add: OnNewImageRect_def Let_def)

lemma sdk_null_8: "quiet_failure (OnNewTexture P sdk_not_running u (Some st) w) w"
  by (simp add: OnNewTexture_def Let_def)

lemma sdk_null_9: "quiet_failure (OnRequestActivePlayerCount P sdk_not_running u (Some st) w) w"
  by (simp add: OnRequestActivePlayerCount_def Let_def split: option.splits)

lemma sdk_null_10: "quiet_failure (OnRequestLeaderboardEntries P sdk_not_running u (Some st) w) w"
  by (simp add: OnRequestLeaderboardEntries_def Let_def split: option.splits)

lemma sdk_null_11: "quiet_failure (OnRequestLeaderboardInfo P sdk_not_running u (Some st) w) w"
  by (simp add: OnRequestLeaderboardInfo_def Let_def split: option.splits)

lemma sdk_null_12: "quiet_failure (OnRequestSetHighScore P sdk_not_running u (Some st) w) w"
  by (simp add: OnRequestSetHighScore_def Let_def split: option.splits)

lemma sdk_null_13: "quiet_failure (OnRequestUserProgress P sdk_not_running u (Some st) w) w"
proof -
  obtain r w1 where rw: "read_user_steam_id P (stack_at st (Suc 0)) ''Argument (userSteamId) is not of type string.'' w = (r, w1)"
    and d: "only_diagnostics w w1" by (rule read_user_steam_id_cases)
  show ?thesis using d
    by (simp add: OnRequestUserProgress_def rw Let_def split: option.splits sum.splits)
qed

lemma sdk_null_14: "quiet_failure (OnResetUserProgress P sdk_not_running u (Some st) w) w"
  by (simp add: OnResetUserProgress_def)

lemma sdk_null_15: "quiet_failure (OnResetUserStats P sdk_not_running u (Some st) w) w"
  by (simp add: OnResetUserStats_def)

lemma sdk_null_16: "quiet_failure (OnSetAchievementProgress P sdk_not_running u (Some st) w) w"
  by (simp add: OnSetAchievementProgress_def Let_def split: option.splits)

lemma sdk_null_17: "quiet_failure (OnSetAchievementUnlocked P sdk_not_running u (Some st) w) w"
  by (simp add: OnSetAchievementUnlocked_def)

lemma sdk_null_18: "quiet_failure (OnSetNotificationPosition P sdk_not_running u (Some st) w) w"
  by (simp add: OnSetNotificationPosition_def)

lemma sdk_null_19: "quiet_failure (OnSetUserStatValues P sdk_not_running u (Some st) w) w"
  by (simp add: OnSetUserStatValues_def)

lemma sdk_null_20: "quiet_failure (OnShowGameOverlay P sdk_not_running u (Some st) w) w"
  by (simp add: OnShowGameOverlay_def)

lemma sdk_null_21: "quiet_failure (OnShowStoreOverlay P sdk_not_running u (Some st) w) w"
  by (simp add: OnShowStoreOverlay_def)

lemma sdk_null_22: "quiet_failure (OnShowUserOverlay P sdk_not_running u (Some st) w) w"
  by (simp add: OnShowUserOverlay_def)

lemma sdk_null_23: "quiet_failure (OnShowWebOverlay P sdk_not_running u (Some st) w) w"
  by (simp add: OnShowWebOverlay_def)

lemma sdk_null_24: "quiet_failure (OnIsDlcInstalled P sdk_not_running u (Some st) w) w"
  by (simp add: OnIsDlcInstalled_def)

lemma sdk_null_3: "OnGetAchievementNames P sdk_not_running u (Some st) w = (Inr [LTable [] []], w)"
  by (simp add: OnGetAchievementNames_def)

lemma sdk_null_25: "fst (listener_entry_point m P s u (Some st) w) = Inr []
   \<and> no_task_no_request w (snd (listener_entry_point m P s u (Some st) w))"
  by (simp add: listener_entry_point_def no_task_no_request_def log_error_def split: option.splits)


text \<open>
  C2 (as amended). With the Steam client not running (every SDK accessor returns null),
  every entry point of the plugin's function table returns to Lua without raising.
  All but three return a single false or a single nil. getAchievementNames returns an
  empty array instead. addEventListener and removeEventListener return no value; they do
  not consult the SDK. None of the twenty-six queues a dispatch task, registers a
  call-result handler, changes the runtime context, dispatches an event or makes a request
  to the SDK.
\<close>

theorem C2_sdk_not_running:
  assumes "(name, f) \<in> set luaFunctions"
  shows "(if name = ''getAchievementNames''
          then fst (f P sdk_not_running upvalue (Some st) w) = Inr [LTable [] []]
          else if name = ''addEventListener'' \<or> name = ''removeEventListener''
          then fst (f P sdk_not_running upvalue (Some st) w) = Inr []
          else reports_failure (fst (f P sdk_not_running upvalue (Some st) w)))
       \<and> no_task_no_request w (snd (f P sdk_not_running upvalue (Some st) w))"
proof -
  note q = sdk_null_1 sdk_null_2 sdk_null_4 sdk_null_5 sdk_null_6 sdk_null_7 sdk_null_8 sdk_null_9 sdk_null_10 sdk_null_11 sdk_null_12 sdk_null_13 sdk_null_14 sdk_null_15 sdk_null_16 sdk_null_17 sdk_null_18 sdk_null_19 sdk_null_20 sdk_null_21 sdk_null_22 sdk_null_23 sdk_null_24
  note qf = q[unfolded quiet_failure_def, THEN conjunct1]
  note qn = q[unfolded quiet_failure_def, THEN conjunct2, THEN only_diagnostics_no_task]
  have nrefl: "no_task_no_request w w" by (simp add: no_task_no_request_def)
  have n3: "no_task_no_request w (snd (OnGetAchievementNames P sdk_not_running upvalue (Some st) w))"
    by (simp add: sdk_null_3 no_task_no_request_def)
  from assms show ?thesis
    unfolding luaFunctions_def
    apply (simp only: set_simps insert_iff empty_iff prod.inject)
    apply (elim disjE conjE FalseE)
    apply (simp_all only:)
    apply (simp_all add: qf qn sdk_null_3 n3 nrefl sdk_null_25 OnAddEventListener_def OnRemoveEventListener_def)
    done
qed

text \<open>
  The claim as stated fails for getAchievementNames: with the Steam client not running it
  returns an empty array, which is neither false nor nil.
\<close>

theorem C2_counterexample:
  "\<not> reports_failure
       (fst (OnGetAchievementNames example_platform sdk_not_running (LUserdata 1) (Some []) example_world))"
  by (simp add: sdk_null_3 reports_failure_def)


text \<open>requestActivePlayerCount with a listener, the Steam client not running.\<close>

theorem C2_witness:
  "(''requestActivePlayerCount'', OnRequestActivePlayerCount) \<in> set luaFunctions
   \<and> reports_failure (fst (OnRequestActivePlayerCount example_platform sdk_not_running (LUserdata 1)
                             (Some [LFunction 5]) example_world))
   \<and> no_task_no_request example_world
        (snd (OnRequestActivePlayerCount example_platform sdk_not_running (LUserdata 1)
                (Some [LFunction 5]) example_world))"
proof -
  have m: "(''requestActivePlayerCount'', OnRequestActivePlayerCount) \<in> set luaFunctions"
    by (simp add: luaFunctions_def)
  show ?thesis
    using C2_sdk_not_running[OF m, of example_platform "LUserdata 1" "[LFunction 5]" example_world] m
    by simp
qed


subsection \<open>Identifiers as decimal text\<close>

lemma of_char_digit_char: "d < 10 \<Longrightarrow> of_char (digit_char d) = (48 + d :: nat)"
  by (simp add: digit_char_def)

lemma digit_char_props:
  assumes "d < 10"
  shows "is_digit (digit_char d)" "digit_value (digit_char d) = d"
        "\<not> is_space (digit_char d)" "digit_char d \<noteq> CHR ''-''" "digit_char d \<noteq> CHR ''+''"
        "digit_char d \<noteq> CHR 0x00"
proof -
  have o: "of_char (digit_char d) = (48 + d :: nat)" using assms by (rule of_char_digit_char)
  show "is_digit (digit_char d)" using assms by (simp add: is_digit_def o)
  show "digit_value (digit_char d) = d" by (simp add: digit_value_def o)
  have ne: "digit_char d \<noteq> c" if "(of_char c :: nat) < 48" for c
  proof
    assume "digit_char d = c"
    then have "(of_char c :: nat) = 48 + d" using o by simp
    then show False using that by simp
  qed
  show "\<not> is_space (digit_char d)"
    unfolding is_space_def using ne[of "CHR '' ''"] ne[of "CHR 0x09"] ne[of "CHR 0x0A"]
      ne[of "CHR 0x0B"] ne[of "CHR 0x0C"] ne[of "CHR 0x0D"] by simp
  show "digit_char d \<noteq> CHR ''-''" using ne[of "CHR ''-''"] by simp
  show "digit_char d \<noteq> CHR ''+''" using ne[of "CHR ''+''"] by simp
  show "digit_char d \<noteq> CHR 0x00" using ne[of "CHR 0x00"] by simp
qed

lemma dec_digits_all_digits: "c \<in> set (dec_digits n) \<Longrightarrow> \<exists>d<10. c = digit_char d"
proof (induction n arbitrary: c rule: dec_digits.induct)
  case (1 n)
  show ?case
  proof (cases "n < 10")
    case True
    with "1.prems" show ?thesis by (subst (asm) dec_digits.simps) auto
  next
    case False
    with "1.prems" have "c \<in> set (dec_digits (n div 10)) \<or> c = digit_char (n mod 10)"
      by (subst (asm) dec_digits.simps) auto
    then show ?thesis
    proof
      assume "c \<in> set (dec_digits (n div 10))"
      with "1.IH"[OF False] show ?thesis by blast
    next
      assume "c = digit_char (n mod 10)"
      moreover have "n mod 10 < 10" by simp
      ultimately show ?thesis by blast
    qed
  qed
qed

lemma dec_digits_nonempty: "dec_digits n \<noteq> []"
  by (subst dec_digits.simps) simp

lemma digits_value_snoc: "digits_value (ds @ [c]) = 10 * digits_value ds + digit_value c"
  by (simp add: digits_value_def)

lemma digits_value_dec_digits: "digits_value (dec_digits n) = n"
proof (induction n rule: dec_digits.induct)
  case (1 n)
  show ?case
  proof (cases "n < 10")
    case True
    then show ?thesis
      by (subst dec_digits.simps) (simp add: digits_value_def digit_char_props(2))
  next
    case False
    have "digits_value (dec_digits n) = 10 * digits_value (dec_digits (n div 10)) + digit_value (digit_char (n mod 10))"
      using False by (subst dec_digits.simps) (simp add: digits_value_snoc)
    also have "\<dots> = 10 * (n div 10) + n mod 10"
      using "1.IH"[OF False] by (simp add: digit_char_props(2))
    also have "\<dots> = n" by simp
    finally show ?thesis .
  qed
qed

lemma dec_digits_scan:
  "takeWhile is_digit (dec_digits n) = dec_digits n"
  "dropWhile is_space (dec_digits n) = dec_digits n"
  "hd (dec_digits n) \<noteq> CHR ''-''" "hd (dec_digits n) \<noteq> CHR ''+''"
  "c_str (dec_digits n) = dec_digits n"
proof -
  have dig: "\<forall>c \<in> set (dec_digits n). is_digit c"
  proof
    fix c assume "c \<in> set (dec_digits n)"
    then obtain d where "d < 10" "c = digit_char d" using dec_digits_all_digits by blast
    then show "is_digit c" using digit_char_props(1) by simp
  qed
  have nul: "\<forall>c \<in> set (dec_digits n). c \<noteq> CHR 0x00"
  proof
    fix c assume "c \<in> set (dec_digits n)"
    then obtain d where "d < 10" "c = digit_char d" using dec_digits_all_digits by blast
    then show "c \<noteq> CHR 0x00" using digit_char_props(6) by simp
  qed
  have h: "hd (dec_digits n) \<in> set (dec_digits n)" using dec_digits_nonempty by simp
  then obtain d where d: "d < 10" "hd (dec_digits n) = digit_char d"
    using dec_digits_all_digits by blast
  show "takeWhile is_digit (dec_digits n) = dec_digits n"
    using dig by (simp only: takeWhile_eq_all_conv) 
  show "dropWhile is_space (dec_digits n) = dec_digits n"
    using digit_char_props(3)[OF d(1)] d(2) by (simp only: dropWhile_eq_self_iff) simp
  show "hd (dec_digits n) \<noteq> CHR ''-''" using digit_char_props(4)[OF d(1)] d(2) by simp
  show "hd (dec_digits n) \<noteq> CHR ''+''" using digit_char_props(5)[OF d(1)] d(2) by simp
  show "c_str (dec_digits n) = dec_digits n"
    unfolding c_str_def using nul by (simp only: takeWhile_eq_all_conv) 
qed

lemma read_unsigned_dec_digits:
  "n < 2 ^ bits \<Longrightarrow> istream_read_unsigned bits (dec_digits n) = Some n"
  by (simp add: istream_read_unsigned_def Let_def dec_digits_scan dec_digits_nonempty digits_value_dec_digits)

lemma read_uint64_round_trip: "istream_read_uint64 (uint64_to_string i) = Some i"
proof -
  have "unat i < 2 ^ 64" using unsigned_less[of i] by simp
  then show ?thesis
    by (simp add: istream_read_uint64_def uint64_to_string_def read_unsigned_dec_digits)
qed

lemma read_user_steam_id_round_trip:
  "steam_id_valid P i \<Longrightarrow>
   read_user_steam_id P (Some (LString (uint64_to_string i))) m w = (Inr i, w)"
  by (simp add: read_user_steam_id_def lua_tostring_def read_uint64_round_trip
        dec_digits_scan(5)[of "unat i", folded uint64_to_string_def])

lemma read_user_steam_id_number:
  "fst (read_user_steam_id P (Some (LNumber x)) m w) = Inl ()"
  by (simp add: read_user_steam_id_def)


lemma record_user_id:
  "user_id_of (payload t) = Some i \<Longrightarrow>
   \<exists>fs. PushLuaEventTableTo s (Some L) t = Some (LTable [] fs)
        \<and> lua_getfield fs ''userSteamId'' = LString (uint64_to_string i)"
  by (cases "payload t") (simp_all add: PushLuaEventTableTo_def Let_def getfield_set_fields_hd)

lemma entry_user_id:
  "\<exists>fs. entry_table e = LTable [] fs
        \<and> lua_getfield fs ''userSteamId'' = LString (uint64_to_string (LeaderboardEntry_t.m_steamIDUser e))"
  by (simp add: entry_table_def getfield_set_fields_hd)

text \<open>
  C6. Writing a 64-bit id as decimal text, as the event records do, and reading the text
  back with the conversion the accessors use gives the same 64-bit value, for every id.
  An accessor given the text of a valid id obtains that id; given a Lua number in place
  of the text it refuses the argument. In every event record that carries a user id, in
  every leaderboard entry and in the id properties, the id is a Lua string holding the
  decimal text, not a number.
\<close>

theorem C6_id_round_trip:
  "istream_read_uint64 (uint64_to_string i) = Some i
   \<and> (steam_id_valid P i \<longrightarrow>
        read_user_steam_id P (Some (LString (uint64_to_string i))) m w = (Inr i, w))
   \<and> fst (read_user_steam_id P (Some (LNumber x)) m w) = Inl ()
   \<and> (user_id_of (payload t) = Some i \<longrightarrow>
        (\<exists>fs. PushLuaEventTableTo s (Some L) t = Some (LTable [] fs)
              \<and> lua_getfield fs ''userSteamId'' = LString (uint64_to_string i)))
   \<and> (\<exists>fs. entry_table e = LTable [] fs
            \<and> lua_getfield fs ''userSteamId'' = LString (uint64_to_string (LeaderboardEntry_t.m_steamIDUser e)))
   \<and> id_property i = (if i \<noteq> 0 then LString (uint64_to_string i) else LNil)"
  using read_uint64_round_trip read_user_steam_id_round_trip read_user_steam_id_number
        record_user_id entry_user_id
  by (simp add: id_property_def)

lemma example_id_text: "uint64_to_string 76561197960287930 = ''76561197960287930''"
  by (simp add: uint64_to_string_def dec_digits.simps digit_char_def char_of_def bit_simps)

theorem C6_witness:
  "steam_id_valid example_platform 76561197960287930
   \<and> user_id_of (payload (task_new (UserStatsUnloaded 76561197960287930))) = Some 76561197960287930
   \<and> uint64_to_string 76561197960287930 = ''76561197960287930''
   \<and> read_user_steam_id example_platform (Some (LString ''76561197960287930''))
        ''Argument (userSteamId) is not of type string.'' example_world
      = (Inr 76561197960287930, example_world)
   \<and> (\<exists>fs. PushLuaEventTableTo sdk_not_running (Some 1) (task_new (UserStatsUnloaded 76561197960287930))
             = Some (LTable [] fs)
           \<and> lua_getfield fs ''userSteamId'' = LString ''76561197960287930'')"
proof -
  have v: "steam_id_valid example_platform 76561197960287930"
    by (simp add: steam_id_valid_def example_platform_def)
  have u: "user_id_of (payload (task_new (UserStatsUnloaded 76561197960287930))) = Some 76561197960287930"
    by (simp add: task_new_def)
  show ?thesis
    using C6_id_round_trip[of 76561197960287930 example_platform
            "''Argument (userSteamId) is not of type string.''" example_world "Finite 0"
            "task_new (UserStatsUnloaded 76561197960287930)" sdk_not_running 1] v u
    by (simp add: example_id_text)
qed

subsection \<open>Setting stat values\<close>

lemma set_stat_element_requests:
  "steam_requests (snd (set_stat_element P u e w))
     = steam_requests w @ (case requested_call P e of Some r \<Rightarrow> [r] | None \<Rightarrow> [])"
  "fst (set_stat_element P u e w) = sets_a_stat P u e"
  by (simp_all add: set_stat_element_def sets_a_stat_def requested_call_def log_error_def
        steam_call_def split: sum.splits)

lemma set_stat_loop_result:
  "fst (set_stat_loop P u es h w) = (h \<or> (\<exists>e \<in> set es. sets_a_stat P u e))"
proof (induction es arbitrary: h w)
  case Nil
  then show ?case by simp
next
  case (Cons e es)
  obtain ok w1 where e: "set_stat_element P u e w = (ok, w1)" by (cases "set_stat_element P u e w")
  have ok: "ok = sets_a_stat P u e" using set_stat_element_requests(2)[of P u e w] e by simp
  show ?case using Cons.IH[of "if ok then True else h" w1] by (auto simp: e ok)
qed

lemma set_stat_loop_requests:
  "steam_requests (snd (set_stat_loop P u es h w))
     = steam_requests w @ List.map_filter (requested_call P) es"
proof (induction es arbitrary: h w)
  case Nil
  then show ?case by (simp add: List.map_filter_simps)
next
  case (Cons e es)
  obtain ok w1 where e: "set_stat_element P u e w = (ok, w1)" by (cases "set_stat_element P u e w")
  have r: "steam_requests w1 = steam_requests w @ (case requested_call P e of Some r \<Rightarrow> [r] | None \<Rightarrow> [])"
    using set_stat_element_requests(1)[of P u e w] e by simp
  show ?case using Cons.IH[of "if ok then True else h" w1]
    by (simp add: e r List.map_filter_simps split: option.splits)
qed

lemma rawgeti_elements:
  "map (lua_rawgeti (Some (LTable es fs))) [1 ..< Suc (length es)] = es"
proof -
  have "map (lua_rawgeti (Some (LTable es fs))) [1 ..< Suc (length es)] = map (\<lambda>i. es ! (i - 1)) [1 ..< Suc (length es)]"
    by (rule map_cong) (auto simp: lua_rawgeti_def)
  also have "\<dots> = map (\<lambda>i. es ! i) [0 ..< length es]"
    by (simp add: map_Suc_upt[symmetric] del: upt_Suc map_Suc_upt)
  also have "\<dots> = es" by (rule map_nth)
  finally show ?thesis .
qed

text \<open>
  The whole call, for an available user stats interface and a non-empty array: the calls
  made are those of the elements that are not refused, in array order; the result is true
  exactly when one of them succeeded, and then the stats are stored.
\<close>

lemma OnSetUserStatValues_eq:
  assumes "SteamUserStats s = Some u" and "es \<noteq> []"
  shows "fst (OnSetUserStatValues P s up (Some (LTable es fs # rest)) w)
           = Inr [LBoolean (\<exists>e \<in> set es. sets_a_stat P u e)]"
    and "steam_requests (snd (OnSetUserStatValues P s up (Some (LTable es fs # rest)) w))
           = steam_requests w @ List.map_filter (requested_call P) es
             @ (if \<exists>e \<in> set es. sets_a_stat P u e then [Call_StoreStats] else [])"
proof -
  let ?st = "LTable es fs # rest"
  have at: "stack_at ?st 1 = Some (LTable es fs)" by (simp add: stack_at_def)
  have len: "lua_objlen (Some (LTable es fs)) = length es" by (simp add: lua_objlen_def)
  have pos: "\<not> length es < 1" using assms(2) by (cases es) simp_all
  obtain h w1 where l: "set_stat_loop P u es False w = (h, w1)" by (cases "set_stat_loop P u es False w")
  have h: "h = (\<exists>e \<in> set es. sets_a_stat P u e)" using set_stat_loop_result[of P u es False w] l by simp
  have r: "steam_requests w1 = steam_requests w @ List.map_filter (requested_call P) es"
    using set_stat_loop_requests[of P u es False w] l by simp
  have eq: "OnSetUserStatValues P s up (Some ?st) w
        = (Inr [LBoolean h], (if h then steam_call Call_StoreStats w1 else w1))"
    unfolding OnSetUserStatValues_def
    by (simp only: at len rawgeti_elements option.case assms(1) Let_def l prod.case lua_istable_def lua_type.simps pos) simp
  show "fst (OnSetUserStatValues P s up (Some ?st) w) = Inr [LBoolean (\<exists>e \<in> set es. sets_a_stat P u e)]"
    by (simp add: eq h)
  show "steam_requests (snd (OnSetUserStatValues P s up (Some ?st) w))
           = steam_requests w @ List.map_filter (requested_call P) es
             @ (if \<exists>e \<in> set es. sets_a_stat P u e then [Call_StoreStats] else [])"
    by (simp add: eq h[symmetric] r steam_call_def)
qed

text \<open>An element of integer type: the value goes through \<open>std::lround\<close>, then the clamp.\<close>

lemma integer_element:
  "c_str n \<noteq> [] \<Longrightarrow>
   stat_update P (stat_element n ''int'' x)
     = Inr (Call_SetStatInt (c_str n) (word_of_int (clamp_int32 (std_lround P (Finite x)))))"
  by (simp add: stat_update_def stat_element_def lua_istable_def getfield_def lua_tostring_def
        Let_def lua_getfield_def StatValueType_FromCoronaStringId_def c_str_def lua_tonumber_def)

text \<open>
  Where the rounded value fits a \<open>long\<close>, the integer written is the value rounded to the
  nearest integer, halfway cases away from zero, and clamped.
\<close>

lemma integer_element_in_range:
  assumes "c_str n \<noteq> []" and "fits_long P (c_round x)"
  shows "stat_update P (stat_element n ''int'' x)
           = Inr (Call_SetStatInt (c_str n) (word_of_int (max INT32_MIN (min INT32_MAX (c_round x)))))"
  using assms
  by (simp add: integer_element std_lround_def clamp_int32_def INT32_MAX_def INT32_MIN_def)

text \<open>With a 32-bit \<open>long\<close> the clamp leaves every result of \<open>std::lround\<close> as it is.\<close>

lemma long_32_no_clamp:
  "clamp_int32 (std_lround (P\<lparr>long_bits := 32\<rparr>) v) = std_lround (P\<lparr>long_bits := 32\<rparr>) v"
proof -
  have u: "- 2147483648 \<le> unspecified_long (P\<lparr>long_bits := 32\<rparr>) v"
          "unspecified_long (P\<lparr>long_bits := 32\<rparr>) v \<le> 2147483647"
    by (simp_all add: unspecified_long_def LONG_MIN_def)
  show ?thesis
    using u
    by (cases v) (auto simp: std_lround_def clamp_int32_def INT32_MAX_def INT32_MIN_def
          fits_long_def LONG_MIN_def LONG_MAX_def)
qed

lemma lround_lp64:
  "std_lround lp64_platform (Finite (5 / 2)) = 3"
  "std_lround lp64_platform (Finite (- (5 / 2))) = - 3"
  "std_lround lp64_platform (Finite (29 / 4)) = 7"
  "std_lround lp64_platform (Finite 10000000000000000000000) = - 9223372036854775808"
  "std_lround lp64_platform PosInf = - 9223372036854775808"
  by (simp_all add: std_lround_def c_round_def fits_long_def LONG_MIN_def LONG_MAX_def
        lp64_platform_def example_platform_def unspecified_long_def)

text \<open>
  C9. \<open>setUserStatValues\<close> converts the value of an integer stat into a \<open>long\<close> with
  \<open>std::lround\<close> and only then clamps the \<open>long\<close> into [INT32_MIN, INT32_MAX], so the clamp
  sees what \<open>std::lround\<close> returned, not the value. For a value that \<open>long\<close> cannot hold
  that result is unspecified. On a platform with a 64-bit \<open>long\<close> whose \<open>std::lround\<close>
  returns \<open>LONG_MIN\<close> there, and an SDK that knows the stat \<open>games\<close> only, the array
  true, a table with no name, 2.5, -2.5, 7.25 and 1e22 gives: the two elements that are
  not stats are passed over, 2.5 is written as 3, -2.5 as -3, 7.25 as 7, and 1e22 is
  written as -2147483648, where rounding to the nearest integer and clamping gives
  2147483647; the result is true, one call having succeeded, and the stats are stored. The
  array of 1e22 alone makes the same wrong call, returns false and stores nothing.
  Positive infinity is written as -2147483648 as well. With a 32-bit \<open>long\<close> the clamp
  changes no result of \<open>std::lround\<close>, whatever the platform and the value.
\<close>

theorem C9_clamp_after_lround:
  "fst (OnSetUserStatValues lp64_platform games_only_sdk (LUserdata 1)
          (Some [LTable example_stat_array []]) example_world)
     = Inr [LBoolean True]
   \<and> steam_requests (snd (OnSetUserStatValues lp64_platform games_only_sdk (LUserdata 1)
          (Some [LTable example_stat_array []]) example_world))
     = [Call_SetStatInt ''games'' 3, Call_SetStatInt ''debt'' (- 3), Call_SetStatInt ''coins'' 7,
        Call_SetStatInt ''feet'' (word_of_int (- 2147483648)), Call_StoreStats]
   \<and> rounded_and_clamped (10 ^ 22) = 2147483647
   \<and> fst (OnSetUserStatValues lp64_platform games_only_sdk (LUserdata 1)
          (Some [LTable [stat_element ''feet'' ''int'' (10 ^ 22)] []]) example_world)
     = Inr [LBoolean False]
   \<and> steam_requests (snd (OnSetUserStatValues lp64_platform games_only_sdk (LUserdata 1)
          (Some [LTable [stat_element ''feet'' ''int'' (10 ^ 22)] []]) example_world))
     = [Call_SetStatInt ''feet'' (word_of_int (- 2147483648))]
   \<and> stat_update lp64_platform
        (LTable [] [(''statName'', LString ''sky''), (''type'', LString ''int''),
                    (''value'', LNumber PosInf)])
     = Inr (Call_SetStatInt ''sky'' (word_of_int (- 2147483648)))
   \<and> clamp_int32 (std_lround (P\<lparr>long_bits := 32\<rparr>) v) = std_lround (P\<lparr>long_bits := 32\<rparr>) v"
proof -
  let ?P = lp64_platform
  have u: "SteamUserStats games_only_sdk = Some games_only_stats"
    by (simp add: games_only_sdk_def)
  have e0: "stat_update ?P (LBoolean True) = Inl ''Array element [%d] is not a table.''"
    by (simp add: stat_update_def lua_istable_def)
  have e1: "stat_update ?P (LTable [] [(''type'', LString ''int''), (''value'', LNumber (Finite 1))])
      = Inl ''Array element [%d] must contain a %s field set to a non-empty string.''"
    by (simp add: stat_update_def lua_istable_def getfield_def lua_getfield_def lua_tostring_def Let_def)
  have c: "clamp_int32 3 = 3" "clamp_int32 (- 3) = - 3" "clamp_int32 7 = 7"
          "clamp_int32 (- 9223372036854775808) = - 2147483648"
    by (simp_all add: clamp_int32_def INT32_MAX_def INT32_MIN_def)
  have e2: "stat_update ?P (stat_element ''games'' ''int'' (5 / 2)) = Inr (Call_SetStatInt ''games'' 3)"
    by (subst integer_element) (simp_all add: c_str_def lround_lp64 c)
  have e3: "stat_update ?P (stat_element ''debt'' ''int'' (- (5 / 2))) = Inr (Call_SetStatInt ''debt'' (- 3))"
    by (subst integer_element) (simp_all add: c_str_def lround_lp64 c)
  have e4: "stat_update ?P (stat_element ''coins'' ''int'' (29 / 4)) = Inr (Call_SetStatInt ''coins'' 7)"
    by (subst integer_element) (simp_all add: c_str_def lround_lp64 c)
  have e5: "stat_update ?P (stat_element ''feet'' ''int'' (10 ^ 22))
      = Inr (Call_SetStatInt ''feet'' (word_of_int (- 2147483648)))"
    by (subst integer_element) (simp_all add: c_str_def lround_lp64 c)
  have e6: "stat_update ?P
        (LTable [] [(''statName'', LString ''sky''), (''type'', LString ''int''),
                    (''value'', LNumber PosInf)])
      = Inr (Call_SetStatInt ''sky'' (word_of_int (- 2147483648)))"
    by (simp add: stat_update_def lua_istable_def getfield_def lua_tostring_def
          Let_def lua_getfield_def StatValueType_FromCoronaStringId_def c_str_def lua_tonumber_def
          lround_lp64 c)
  have s: "SetStatInt games_only_stats = (\<lambda>name v. name = ''games'')"
    by (simp add: games_only_stats_def)
  have w: "steam_requests example_world = []" by (simp add: example_world_def)
  have a: "example_stat_array \<noteq> []" by (simp add: example_stat_array_def)
  have r: "rounded_and_clamped (10 ^ 22) = 2147483647"
    by (simp add: rounded_and_clamped_def round_def)
  show ?thesis
    using OnSetUserStatValues_eq[OF u a, of ?P "LUserdata 1" "[]" "[]" example_world]
          OnSetUserStatValues_eq[OF u, of "[stat_element ''feet'' ''int'' (10 ^ 22)]" ?P
             "LUserdata 1" "[]" "[]" example_world]
          long_32_no_clamp[of P v] r e6
    by (simp add: example_stat_array_def sets_a_stat_def requested_call_def e0 e1 e2 e3 e4 e5
          e5[simplified] s w List.map_filter_simps)
qed

text \<open>
  With a 32-bit \<open>long\<close> whose \<open>std::lround\<close> returns \<open>LONG_MIN\<close> out of range, the value
  3000000000 of an integer stat is written as -2147483648; rounded and clamped it is
  2147483647.
\<close>

theorem C9_witness:
  "stat_update llp64_platform (stat_element ''feet'' ''int'' 3000000000)
     = Inr (Call_SetStatInt ''feet'' (word_of_int (- 2147483648)))
   \<and> rounded_and_clamped 3000000000 = 2147483647"
proof -
  have p: "llp64_platform\<lparr>long_bits := 32\<rparr> = llp64_platform"
    by (simp add: llp64_platform_def)
  have l: "std_lround llp64_platform (Finite 3000000000) = - 2147483648"
    by (simp add: std_lround_def c_round_def fits_long_def LONG_MIN_def LONG_MAX_def
          llp64_platform_def example_platform_def unspecified_long_def)
  have c: "clamp_int32 (std_lround llp64_platform (Finite 3000000000)) = - 2147483648"
    using C9_clamp_after_lround[of llp64_platform "Finite 3000000000"] by (simp add: p l)
  have r: "rounded_and_clamped 3000000000 = 2147483647"
    by (simp add: rounded_and_clamped_def round_def)
  show ?thesis
    using integer_element[of "''feet''" llp64_platform 3000000000] c r
    by (simp add: c_str_def)
qed

end
